theory Spec2Isabelle
  imports Complex_Main "HOL-Library.Sublist"
begin

section \<open>Sanchar-Optimize backend: decision orchestrator, telemetry buffer, predictor\<close>

text \<open>
  Shallow embedding of the Python services under \<^verbatim>\<open>Backend/app\<close>.
  Python \<^verbatim>\<open>float\<close> values are modelled by exact reals (the thresholds of the code are
  comparisons against literals; rounding, infinities and NaN are outside the model),
  Python \<^verbatim>\<open>int\<close> by \<^typ>\<open>int\<close>, \<^verbatim>\<open>str\<close> by \<^typ>\<open>string\<close>, dictionaries by maps.
  Every \<^verbatim>\<open>datetime.now()\<close> read of one call is the clock value \<open>now\<close> passed to it.
\<close>

subsection \<open>Settings (\<^verbatim>\<open>app/core/config.py\<close>, default values)\<close>

definition PREDICTION_THRESHOLD :: real where
  "PREDICTION_THRESHOLD = 0.75"

definition VIDEO_MIN_BANDWIDTH :: real where
  "VIDEO_MIN_BANDWIDTH = 1000"

definition AUDIO_MIN_BANDWIDTH :: real where
  "AUDIO_MIN_BANDWIDTH = 500"

subsection \<open>Modality models (\<^verbatim>\<open>app/models/modality.py\<close>)\<close>

datatype Modality = VIDEO | AUDIO | TEXT_SUMMARY

datatype TransitionTiming = IMMEDIATE | WAIT_2S | WAIT_5S

datatype py_error = ValueError | TypeError | ValidationError | IndexError

text \<open>\<^verbatim>\<open>Modality(s)\<close> and \<^verbatim>\<open>TransitionTiming(s)\<close>: the enum member with that value, else ValueError.\<close>

definition Modality_of :: "string \<Rightarrow> py_error + Modality" where
  "Modality_of s =
     (if s = ''VIDEO'' then Inr VIDEO
      else if s = ''AUDIO'' then Inr AUDIO
      else if s = ''TEXT_SUMMARY'' then Inr TEXT_SUMMARY
      else Inl ValueError)"

definition TransitionTiming_of :: "string \<Rightarrow> py_error + TransitionTiming" where
  "TransitionTiming_of s =
     (if s = ''IMMEDIATE'' then Inr IMMEDIATE
      else if s = ''WAIT_2S'' then Inr WAIT_2S
      else if s = ''WAIT_5S'' then Inr WAIT_5S
      else Inl ValueError)"

record ModalityDecisionRequest =
  device_id :: string
  session_id :: string
  content_id :: string
  content_position :: real
  available_bandwidth_kbps :: real
  predicted_signal_drop :: bool
  prediction_confidence :: real
  time_to_signal_drop :: "real option"
  content_description :: "string option"
  key_concepts :: "string list option"
  visual_dependency_score :: real
  current_modality :: Modality
  transition_history :: "string list"

text \<open>
  The response without its \<^verbatim>\<open>decision_id\<close> (a fresh uuid4); \<^verbatim>\<open>timestamp\<close> is the
  clock at construction.
\<close>

record ModalityDecisionResponse =
  timestamp :: real
  target_modality :: Modality
  transition_timing :: TransitionTiming
  reasoning :: string
  fallback_strategy :: "string option"
  decision_confidence :: real
  model_used :: string
  processing_time_ms :: "int option"

record PanicSignalRequest =
  p_device_id :: string
  p_session_id :: string
  p_content_id :: string
  p_content_position :: real
  p_current_modality :: Modality
  current_bandwidth_kbps :: real
  is_buffering :: bool
  buffer_level_seconds :: real

text \<open>One entry of \<^verbatim>\<open>ModalityStatus.transition_history\<close> (a dict with these five keys).\<close>

record transition =
  t_from :: Modality
  t_to :: Modality
  t_timestamp :: real
  t_position :: real
  t_success :: bool

record ModalityStatus =
  s_session_id :: string
  s_device_id :: string
  s_content_id :: string
  s_current_modality :: Modality
  s_content_position :: real
  last_transition_timestamp :: "real option"
  transition_count :: int
  s_transition_history :: "transition list"
  total_buffering_events :: int
  successful_transitions :: int
  failed_transitions :: int

subsection \<open>Orchestrator state (\<^verbatim>\<open>app/services/modality_orchestrator.py\<close>)\<close>

text \<open>\<^verbatim>\<open>self.session_states: Dict[str, ModalityStatus]\<close>, keyed by the session id alone.\<close>

type_synonym session_states = "string \<rightharpoonup> ModalityStatus"

text \<open>The slice \<^verbatim>\<open>xs[-n:]\<close> for a positive \<open>n\<close>: the last \<open>n\<close> elements, all of them if there are fewer.\<close>

definition py_last_n :: "nat \<Rightarrow> 'a list \<Rightarrow> 'a list" where
  "py_last_n n xs = drop (length xs - n) xs"

definition get_session_status :: "session_states \<Rightarrow> string \<Rightarrow> ModalityStatus option" where
  "get_session_status st sid = st sid"

definition clear_session :: "session_states \<Rightarrow> string \<Rightarrow> session_states" where
  "clear_session st sid = (if sid \<in> dom st then st(sid := None) else st)"

text \<open>The status record created for a session id that is not yet in the table.\<close>

definition new_status ::
  "real \<Rightarrow> string \<Rightarrow> string \<Rightarrow> string \<Rightarrow> Modality \<Rightarrow> real \<Rightarrow> ModalityStatus" where
  "new_status now sid did cid to_modality pos =
     \<lparr>s_session_id = sid, s_device_id = did, s_content_id = cid,
      s_current_modality = to_modality, s_content_position = pos,
      last_transition_timestamp = Some now, transition_count = 0,
      s_transition_history = [], total_buffering_events = 0,
      successful_transitions = 0, failed_transitions = 0\<rparr>"

text \<open>The branch \<^verbatim>\<open>if from_modality != to_modality\<close> of \<^verbatim>\<open>_update_session_state\<close>.\<close>

definition record_transition ::
  "real \<Rightarrow> Modality \<Rightarrow> Modality \<Rightarrow> real \<Rightarrow> bool \<Rightarrow> ModalityStatus \<Rightarrow> ModalityStatus" where
  "record_transition now from_modality to_modality pos success status =
     (let appended = s_transition_history status @
            [\<lparr>t_from = from_modality, t_to = to_modality, t_timestamp = now,
              t_position = pos, t_success = success\<rparr>];
          kept = (if length appended > 10 then py_last_n 10 appended else appended);
          status1 = status\<lparr>transition_count := transition_count status + 1,
                           s_transition_history := kept\<rparr>
      in if success
         then status1\<lparr>successful_transitions := successful_transitions status1 + 1\<rparr>
         else status1\<lparr>failed_transitions := failed_transitions status1 + 1\<rparr>)"

definition update_session_state ::
  "session_states \<Rightarrow> real \<Rightarrow> string \<Rightarrow> string \<Rightarrow> string \<Rightarrow> Modality \<Rightarrow> Modality \<Rightarrow> real \<Rightarrow> bool
   \<Rightarrow> session_states" where
  "update_session_state st now sid did cid from_modality to_modality pos success =
     (let status0 = (case st sid of
                       None \<Rightarrow> new_status now sid did cid to_modality pos
                     | Some s \<Rightarrow> s);
          status1 = (if from_modality \<noteq> to_modality
                     then record_transition now from_modality to_modality pos success status0
                     else status0)
      in st(sid \<mapsto> status1\<lparr>s_current_modality := to_modality,
                              s_content_position := pos,
                              last_transition_timestamp := Some now\<rparr>))"

subsection \<open>The panic path\<close>

definition panic_decision :: "real \<Rightarrow> PanicSignalRequest \<Rightarrow> ModalityDecisionResponse" where
  "panic_decision now request =
     (let bandwidth = current_bandwidth_kbps request;
          buffer_level = buffer_level_seconds request;
          (target, timing, why, confidence) =
            (if bandwidth < AUDIO_MIN_BANDWIDTH \<or> buffer_level < 1.0
             then (TEXT_SUMMARY, IMMEDIATE,
                   ''Critical network failure. Immediate transition to text summary to prevent complete interruption.'',
                   0.95)
             else if bandwidth < VIDEO_MIN_BANDWIDTH
             then (AUDIO, IMMEDIATE,
                   ''Severe bandwidth degradation. Immediate transition to audio to maintain content flow.'',
                   0.90)
             else (p_current_modality request, WAIT_2S,
                   ''Bandwidth still acceptable. Monitoring situation before transition.'',
                   0.80))
      in \<lparr>timestamp = now, target_modality = target, transition_timing = timing,
          reasoning = why,
          fallback_strategy = Some ''If fails, escalate to next lower modality'',
          decision_confidence = confidence, model_used = ''rule-based-panic-handler'',
          processing_time_ms = Some 10\<rparr>)"

definition handle_panic_signal ::
  "session_states \<Rightarrow> real \<Rightarrow> PanicSignalRequest \<Rightarrow> ModalityDecisionResponse \<times> session_states" where
  "handle_panic_signal st now request =
     (let response = panic_decision now request
      in (response,
          update_session_state st now (p_session_id request) (p_device_id request)
            (p_content_id request) (p_current_modality request) (target_modality response)
            (p_content_position request) True))"

subsection \<open>The oracle client (\<^verbatim>\<open>app/aws/bedrock_client.py\<close>)\<close>

text \<open>
  A value stored under a key of the decision dictionary whose consumer expects a string:
  the key is missing, holds \<^verbatim>\<open>null\<close>, holds a string, or holds a value of another JSON
  type (number, boolean, array, object).
\<close>

datatype 'a field = Absent | Null | Val 'a | Wrong

text \<open>
  The value under \<^verbatim>\<open>decision_confidence\<close>, by what the float validation of the response
  model makes of it. The field is declared \<^verbatim>\<open>float\<close> with \<^verbatim>\<open>ge=0.0, le=1.0\<close> and validated
  in lax mode, which reads a JSON number as itself, \<^verbatim>\<open>true\<close> and \<^verbatim>\<open>false\<close> as 1 and 0, and
  a string that parses as a number (such as \<^verbatim>\<open>"0.9"\<close>) as that number:
  \<^item> \<open>ConfAbsent\<close>: the key is missing;
  \<^item> \<open>ConfNumber r\<close>: the JSON number \<open>r\<close>;
  \<^item> \<open>ConfBool b\<close>: a JSON boolean;
  \<^item> \<open>ConfNumericString r\<close>: a string that parses as the number \<open>r\<close>;
  \<^item> \<open>ConfRejected\<close>: a value the validation rejects: \<^verbatim>\<open>null\<close>, any other string, an
    array, an object, and the values \<^verbatim>\<open>NaN\<close> and \<^verbatim>\<open>Infinity\<close>, which fail the bounds.
\<close>

datatype confidence_input =
    ConfAbsent
  | ConfNumber real
  | ConfBool bool
  | ConfNumericString real
  | ConfRejected

record decision_data =
  dd_target_modality :: "string field"
  dd_transition_timing :: "string field"
  dd_reasoning :: "string field"
  dd_fallback_strategy :: "string field"
  dd_decision_confidence :: confidence_input
  dd_model_used :: "string field"
  dd_processing_time_ms :: "int option"

text \<open>
  What one call of \<^verbatim>\<open>get_modality_decision\<close> meets outside the program:
  \<^item> \<open>ClientUnavailable hit\<close>: \<^verbatim>\<open>self.client is None\<close>, the mock response is used;
    \<open>hit\<close> is the mock's test \<^verbatim>\<open>"800" in prompt or "low" in prompt.lower()\<close> (the
    prompt's number formatting is not modelled);
  \<^item> \<open>InvokeFailed\<close>: the invocation raised (service error, timeout, unreadable body),
    so \<^verbatim>\<open>invoke_model\<close> returns \<^verbatim>\<open>success = False\<close>;
  \<^item> \<open>ContentNotJson\<close>: \<^verbatim>\<open>json.loads\<close> raises JSONDecodeError;
  \<^item> \<open>ContentNotObject\<close>: the content parses to a JSON value that is not an object,
    so storing \<^verbatim>\<open>processing_time_ms\<close> in it raises TypeError;
  \<^item> \<open>ContentObject ms d\<close>: the content parses to the object \<open>d\<close>, after \<open>ms\<close>
    milliseconds.
\<close>

datatype oracle_outcome =
    ClientUnavailable bool
  | InvokeFailed
  | ContentNotJson
  | ContentNotObject
  | ContentObject int decision_data

definition get_fallback_decision :: "ModalityDecisionRequest \<Rightarrow> decision_data" where
  "get_fallback_decision request =
     (let bandwidth = available_bandwidth_kbps request;
          visual_dependency = visual_dependency_score request;
          (target, timing, why) =
            (if bandwidth \<ge> 1000 \<and> visual_dependency < 0.7
             then (''VIDEO'', ''IMMEDIATE'',
                   ''Sufficient bandwidth and low visual dependency. Maintain video.'')
             else if bandwidth \<ge> 500
             then (''AUDIO'', ''WAIT_2S'',
                   ''Moderate bandwidth. Transition to audio after current segment.'')
             else (''TEXT_SUMMARY'', ''IMMEDIATE'',
                   ''Low bandwidth. Immediate transition to text summary.''))
      in \<lparr>dd_target_modality = Val target, dd_transition_timing = Val timing,
          dd_reasoning = Val (why @ '' [Fallback rule-based decision]''),
          dd_fallback_strategy = Val ''Continue with best-effort delivery'',
          dd_decision_confidence = ConfNumber 0.6, dd_model_used = Val ''rule-based-fallback'',
          dd_processing_time_ms = None\<rparr>)"

definition get_mock_response :: "bool \<Rightarrow> decision_data" where
  "get_mock_response hit =
     (if hit
      then \<lparr>dd_target_modality = Val ''AUDIO'', dd_transition_timing = Val ''WAIT_2S'',
            dd_reasoning = Val ''Bandwidth at 800 Kbps suggests audio modality. Waiting 2s to complete current concept.'',
            dd_fallback_strategy = Val ''If audio fails, transition to TEXT_SUMMARY'',
            dd_decision_confidence = ConfNumber 0.85, dd_model_used = Absent,
            dd_processing_time_ms = Some 300\<rparr>
      else \<lparr>dd_target_modality = Val ''VIDEO'', dd_transition_timing = Val ''IMMEDIATE'',
            dd_reasoning = Val ''Sufficient bandwidth to maintain video quality.'',
            dd_fallback_strategy = Val ''Monitor for degradation'',
            dd_decision_confidence = ConfNumber 0.90, dd_model_used = Absent,
            dd_processing_time_ms = Some 300\<rparr>)"

text \<open>
  \<^verbatim>\<open>get_modality_decision\<close>, reading the context dictionary's entries from the request
  they are copied from. Building the prompt joins \<^verbatim>\<open>key_concepts\<close>, which raises
  TypeError when the request carries \<^verbatim>\<open>null\<close> there.
\<close>

definition get_modality_decision ::
  "ModalityDecisionRequest \<Rightarrow> oracle_outcome \<Rightarrow> py_error + decision_data" where
  "get_modality_decision request outcome =
     (if key_concepts request = None then Inl TypeError
      else case outcome of
             ClientUnavailable hit \<Rightarrow> Inr (get_mock_response hit)
           | InvokeFailed \<Rightarrow> Inr (get_fallback_decision request)
           | ContentNotJson \<Rightarrow> Inr (get_fallback_decision request)
           | ContentNotObject \<Rightarrow> Inl TypeError
           | ContentObject ms d \<Rightarrow> Inr (d\<lparr>dd_processing_time_ms := Some ms\<rparr>))"

subsection \<open>The decision path\<close>

text \<open>Reading a key with a default, then the enum constructor or the field's validation.\<close>

definition enum_field :: "string \<Rightarrow> (string \<Rightarrow> py_error + 'a) \<Rightarrow> string field \<Rightarrow> py_error + 'a" where
  "enum_field dflt of_value f =
     (case f of Absent \<Rightarrow> of_value dflt | Val s \<Rightarrow> of_value s | Null \<Rightarrow> Inl ValueError
      | Wrong \<Rightarrow> Inl ValueError)"

definition str_field :: "string \<Rightarrow> string field \<Rightarrow> py_error + string" where
  "str_field dflt f =
     (case f of Absent \<Rightarrow> Inr dflt | Val s \<Rightarrow> Inr s | Null \<Rightarrow> Inl ValidationError
      | Wrong \<Rightarrow> Inl ValidationError)"

definition opt_str_field :: "string field \<Rightarrow> py_error + string option" where
  "opt_str_field f =
     (case f of Absent \<Rightarrow> Inr None | Null \<Rightarrow> Inr None | Val s \<Rightarrow> Inr (Some s)
      | Wrong \<Rightarrow> Inl ValidationError)"

text \<open>The bounds \<^verbatim>\<open>ge=0.0, le=1.0\<close> of the confidence field.\<close>

definition in_unit_interval :: "real \<Rightarrow> py_error + real" where
  "in_unit_interval r = (if 0 \<le> r \<and> r \<le> 1 then Inr r else Inl ValidationError)"

definition unit_float_field :: "real \<Rightarrow> confidence_input \<Rightarrow> py_error + real" where
  "unit_float_field dflt f =
     (case f of
        ConfAbsent \<Rightarrow> in_unit_interval dflt
      | ConfNumber r \<Rightarrow> in_unit_interval r
      | ConfBool b \<Rightarrow> in_unit_interval (if b then 1 else 0)
      | ConfNumericString r \<Rightarrow> in_unit_interval r
      | ConfRejected \<Rightarrow> Inl ValidationError)"

definition build_response ::
  "real \<Rightarrow> int \<Rightarrow> decision_data \<Rightarrow> py_error + ModalityDecisionResponse" where
  "build_response now elapsed_ms d =
     (case enum_field ''VIDEO'' Modality_of (dd_target_modality d) of
        Inl e \<Rightarrow> Inl e
      | Inr target \<Rightarrow>
     (case enum_field ''IMMEDIATE'' TransitionTiming_of (dd_transition_timing d) of
        Inl e \<Rightarrow> Inl e
      | Inr timing \<Rightarrow>
     (case str_field ''AI decision reasoning'' (dd_reasoning d) of
        Inl e \<Rightarrow> Inl e
      | Inr why \<Rightarrow>
     (case opt_str_field (dd_fallback_strategy d) of
        Inl e \<Rightarrow> Inl e
      | Inr strategy \<Rightarrow>
     (case unit_float_field 0.8 (dd_decision_confidence d) of
        Inl e \<Rightarrow> Inl e
      | Inr confidence \<Rightarrow>
     (case str_field ''bedrock-claude-3.5-sonnet'' (dd_model_used d) of
        Inl e \<Rightarrow> Inl e
      | Inr model \<Rightarrow>
          Inr \<lparr>timestamp = now, target_modality = target, transition_timing = timing,
               reasoning = why, fallback_strategy = strategy,
               decision_confidence = confidence, model_used = model,
               processing_time_ms =
                 Some (case dd_processing_time_ms d of None \<Rightarrow> elapsed_ms
                       | Some ms \<Rightarrow> ms)\<rparr>))))))"

definition get_safe_fallback_decision ::
  "real \<Rightarrow> ModalityDecisionRequest \<Rightarrow> ModalityDecisionResponse" where
  "get_safe_fallback_decision now request =
     (let bandwidth = available_bandwidth_kbps request;
          (target, why) =
            (if bandwidth \<ge> VIDEO_MIN_BANDWIDTH
             then (VIDEO, ''Sufficient bandwidth. Maintaining video. [Fallback decision]'')
             else if bandwidth \<ge> AUDIO_MIN_BANDWIDTH
             then (AUDIO, ''Moderate bandwidth. Transitioning to audio. [Fallback decision]'')
             else (TEXT_SUMMARY,
                   ''Low bandwidth. Transitioning to text summary. [Fallback decision]''))
      in \<lparr>timestamp = now, target_modality = target, transition_timing = IMMEDIATE,
          reasoning = why, fallback_strategy = Some ''Continue best-effort delivery'',
          decision_confidence = 0.6, model_used = ''rule-based-fallback'',
          processing_time_ms = Some 5\<rparr>)"

text \<open>
  \<^verbatim>\<open>decide_modality_transition\<close>: the body of the \<^verbatim>\<open>try\<close>, and the \<^verbatim>\<open>except\<close> branch
  for whatever it raises. \<open>elapsed_ms\<close> is the processing time the orchestrator measures.
\<close>

definition decide_modality_transition ::
  "session_states \<Rightarrow> real \<Rightarrow> int \<Rightarrow> ModalityDecisionRequest \<Rightarrow> oracle_outcome
   \<Rightarrow> ModalityDecisionResponse \<times> session_states" where
  "decide_modality_transition st now elapsed_ms request outcome =
     (case get_modality_decision request outcome of
        Inl e \<Rightarrow> (get_safe_fallback_decision now request, st)
      | Inr d \<Rightarrow>
          (case build_response now elapsed_ms d of
             Inl e \<Rightarrow> (get_safe_fallback_decision now request, st)
           | Inr response \<Rightarrow>
               (response,
                update_session_state st now (session_id request) (device_id request)
                  (content_id request) (current_modality request)
                  (target_modality response) (content_position request) True)))"

subsection \<open>Telemetry models (\<^verbatim>\<open>app/models/telemetry.py\<close>)\<close>

record NetworkTelemetry =
  n_device_id :: string
  n_session_id :: string
  n_timestamp :: real
  signal_strength :: real
  latency_ms :: int
  packet_loss_percent :: real
  bandwidth_kbps :: real
  gps_velocity_kmh :: real
  location_hash :: "string option"
  n_content_id :: "string option"
  n_content_position :: "real option"

text \<open>The prediction without its \<^verbatim>\<open>prediction_id\<close> (a fresh uuid4).\<close>

record SignalDropPrediction =
  d_device_id :: string
  d_session_id :: string
  d_timestamp :: real
  confidence :: real
  predicted_time_seconds :: real
  predicted_bandwidth_kbps :: real
  prediction_horizon_seconds :: int
  model_version :: string
  predictor_type :: string
  features_used :: "string list"

text \<open>
  The constructor of \<^verbatim>\<open>SignalDropPrediction\<close>: the field constraints
  \<^verbatim>\<open>confidence: ge=0, le=1\<close>, \<^verbatim>\<open>predicted_time_seconds: ge=0, le=10\<close> and
  \<^verbatim>\<open>predicted_bandwidth_kbps: ge=0\<close> raise a validation error when violated.
\<close>

definition make_prediction :: "SignalDropPrediction \<Rightarrow> py_error + SignalDropPrediction" where
  "make_prediction p =
     (if 0 \<le> confidence p \<and> confidence p \<le> 1
         \<and> 0 \<le> predicted_time_seconds p \<and> predicted_time_seconds p \<le> 10
         \<and> 0 \<le> predicted_bandwidth_kbps p
      then Inr p else Inl ValidationError)"

subsection \<open>Network sentry: buffer and cache (\<^verbatim>\<open>app/services/network_sentry.py\<close>)\<close>

record sentry =
  telemetry_buffer :: "string \<rightharpoonup> NetworkTelemetry list"
  prediction_cache :: "string \<rightharpoonup> SignalDropPrediction"

definition max_buffer_size :: nat where
  "max_buffer_size = 100"

definition cache_ttl_seconds :: real where
  "cache_ttl_seconds = 2"

definition sentry_init :: sentry where
  "sentry_init = \<lparr>telemetry_buffer = Map.empty, prediction_cache = Map.empty\<rparr>"

text \<open>The dictionary key \<^verbatim>\<open>f"{device_id}:{session_id}"\<close>.\<close>

definition session_key :: "string \<Rightarrow> string \<Rightarrow> string" where
  "session_key did sid = did @ '':'' @ sid"

text \<open>
  \<^verbatim>\<open>ingest_telemetry\<close>: the buffer is a \<^verbatim>\<open>defaultdict(list)\<close>, so a missing key reads as
  the empty list. Nothing in the \<^verbatim>\<open>try\<close> block raises; the result is \<^verbatim>\<open>True\<close>.
\<close>

definition ingest_telemetry :: "sentry \<Rightarrow> NetworkTelemetry \<Rightarrow> bool \<times> sentry" where
  "ingest_telemetry s telemetry =
     (let key = session_key (n_device_id telemetry) (n_session_id telemetry);
          appended = (case telemetry_buffer s key of None \<Rightarrow> [] | Some xs \<Rightarrow> xs) @ [telemetry];
          kept = (if length appended > max_buffer_size
                  then py_last_n max_buffer_size appended else appended)
      in (True, s\<lparr>telemetry_buffer := (telemetry_buffer s)(key \<mapsto> kept)\<rparr>))"

fun ingest_telemetry_batch :: "sentry \<Rightarrow> NetworkTelemetry list \<Rightarrow> nat \<times> sentry" where
  "ingest_telemetry_batch s [] = (0, s)"
| "ingest_telemetry_batch s (t # batch) =
     (let (ok, s1) = ingest_telemetry s t;
          (n, s2) = ingest_telemetry_batch s1 batch
      in ((if ok then 1 else 0) + n, s2))"

text \<open>The stored list of a key, \<^verbatim>\<open>self.telemetry_buffer.get(key, [])\<close>.\<close>

definition buffered :: "sentry \<Rightarrow> string \<Rightarrow> NetworkTelemetry list" where
  "buffered s key = (case telemetry_buffer s key of None \<Rightarrow> [] | Some xs \<Rightarrow> xs)"

definition get_cached_prediction ::
  "sentry \<Rightarrow> real \<Rightarrow> string \<Rightarrow> SignalDropPrediction option \<times> sentry" where
  "get_cached_prediction s now cache_key =
     (case prediction_cache s cache_key of
        None \<Rightarrow> (None, s)
      | Some prediction \<Rightarrow>
          (let age = now - d_timestamp prediction
           in if age < cache_ttl_seconds then (Some prediction, s)
              else (None, s\<lparr>prediction_cache := (prediction_cache s)(cache_key := None)\<rparr>)))"

definition cache_prediction :: "sentry \<Rightarrow> string \<Rightarrow> SignalDropPrediction \<Rightarrow> sentry" where
  "cache_prediction s cache_key prediction =
     s\<lparr>prediction_cache := (prediction_cache s)(cache_key \<mapsto> prediction)\<rparr>"

subsection \<open>The predictor (\<^verbatim>\<open>app/ml/lstm_predictor.py\<close>)\<close>

definition sequence_length :: nat where
  "sequence_length = 10"

definition prediction_horizon :: int where
  "prediction_horizon = 5"

text \<open>
  \<^verbatim>\<open>np.polyfit(range(len(ys)), ys, 1)[0]\<close>, the slope of numpy's least-squares line through
  the points \<open>(i, ys[i])\<close>, is library code working in floating point. It is taken as a
  parameter of the predictor: \<open>polyfit\<close> for a list of floats and \<open>polyfit_int\<close> for a
  list of Python integers, each giving the slope numpy returns or the error it raises
  (an empty vector, a single point, an integer beyond 64 bits).
\<close>

type_synonym polyfit_floats = "real list \<Rightarrow> py_error + real"

type_synonym polyfit_ints = "int list \<Rightarrow> py_error + real"

text \<open>The number of \<^verbatim>\<open>True\<close> entries, \<^verbatim>\<open>sum([b1, b2, b3])\<close>.\<close>

definition sum_bools :: "bool list \<Rightarrow> nat" where
  "sum_bools bs = length (filter id bs)"

text \<open>
  \<^verbatim>\<open>_predict_with_heuristic\<close>. After the three fits the current values are read with
  \<^verbatim>\<open>[-1]\<close>, which raises IndexError on an empty list.
\<close>

definition predict_with_heuristic ::
  "polyfit_floats \<Rightarrow> polyfit_ints \<Rightarrow> real \<Rightarrow> NetworkTelemetry list \<Rightarrow> string \<Rightarrow> string
   \<Rightarrow> py_error + SignalDropPrediction option" where
  "predict_with_heuristic polyfit polyfit_int now telemetry_points did sid =
     (let signal_strengths = map signal_strength telemetry_points;
          bandwidths = map bandwidth_kbps telemetry_points;
          latencies = map latency_ms telemetry_points
      in case polyfit signal_strengths of Inl e \<Rightarrow> Inl e | Inr signal_trend \<Rightarrow>
         (case polyfit bandwidths of Inl e \<Rightarrow> Inl e | Inr bandwidth_trend \<Rightarrow>
         (case polyfit_int latencies of Inl e \<Rightarrow> Inl e | Inr latency_trend \<Rightarrow>
         (if telemetry_points = [] then Inl IndexError
          else
         (let current_signal = last signal_strengths;
              current_bandwidth = last bandwidths;
              current_latency = last latencies;
              signal_declining = signal_trend < - 0.05;
              bandwidth_declining = bandwidth_trend < - 100;
              latency_increasing = latency_trend > 50;
              indicators_triggered =
                sum_bools [signal_declining, bandwidth_declining, latency_increasing];
              base0 = (if indicators_triggered \<ge> 2 then 0.6 else 0.0);
              base1 = (if current_signal < 0.3 then base0 + 0.2 else base0);
              base2 = (if current_bandwidth < 500 then base1 + 0.15 else base1);
              base3 = (if current_latency > 500 then base2 + 0.15 else base2);
              conf = min 1.0 base3
          in if conf \<ge> PREDICTION_THRESHOLD
             then (let time_to_drop =
                         (if signal_declining \<and> signal_trend \<noteq> 0
                          then max 0.5 (min 5.0 \<bar>(0.2 - current_signal) / signal_trend\<bar>)
                          else 3.0);
                       predicted_bandwidth = max 0 (current_bandwidth + bandwidth_trend * 3)
                   in case make_prediction
                        \<lparr>d_device_id = did, d_session_id = sid, d_timestamp = now,
                         confidence = conf, predicted_time_seconds = time_to_drop,
                         predicted_bandwidth_kbps = predicted_bandwidth,
                         prediction_horizon_seconds = prediction_horizon,
                         model_version = ''heuristic_fallback'',
                         predictor_type = ''heuristic'',
                         features_used = [''signal_strength_trend'', ''bandwidth_trend'',
                                          ''latency_trend'']\<rparr> of
                        Inl e \<Rightarrow> Inl e
                      | Inr p \<Rightarrow> Inr (Some p))
             else Inr None)))))"

text \<open>One row of the normalised feature array.\<close>

record feature_row =
  f_signal :: real
  f_latency :: real
  f_loss :: real
  f_bandwidth :: real
  f_velocity :: real

definition prepare_features :: "NetworkTelemetry list \<Rightarrow> feature_row list" where
  "prepare_features telemetry_points =
     map (\<lambda>point.
            \<lparr>f_signal = (signal_strength point - 0.7) / 0.2,
             f_latency = (real_of_int (latency_ms point) - 200.0) / 150.0,
             f_loss = (packet_loss_percent point - 5.0) / 8.0,
             f_bandwidth = (bandwidth_kbps point - 2000.0) / 1500.0,
             f_velocity = (gps_velocity_kmh point - 30.0) / 40.0\<rparr>)
         telemetry_points"

definition estimate_time_to_drop :: "polyfit_floats \<Rightarrow> feature_row list \<Rightarrow> py_error + real" where
  "estimate_time_to_drop polyfit features =
     (let signal_strengths = map f_signal features
      in if length signal_strengths \<ge> 2
         then (case polyfit signal_strengths of
                 Inl e \<Rightarrow> Inl e
               | Inr trend \<Rightarrow>
                   if trend < 0
                   then (let current_signal = last signal_strengths * 0.2 + 0.7
                         in if current_signal > 0.2
                            then (let actual_trend = trend * 0.2;
                                      time_to_drop = (0.2 - current_signal) / actual_trend
                                  in Inr (max 0.5
                                       (min (real_of_int prediction_horizon) \<bar>time_to_drop\<bar>)))
                            else Inr 3.0)
                   else Inr 3.0)
         else Inr 3.0)"

text \<open>
  \<^verbatim>\<open>_predict_with_model\<close>: the loaded model is a function from the feature window to a
  drop probability, \<open>None\<close> when \<^verbatim>\<open>model.predict\<close> raises. Every exception of the body
  (also the IndexError of \<^verbatim>\<open>features[-1]\<close> on an empty window and an error of the fit) is
  caught and turned into \<^verbatim>\<open>None\<close>.
\<close>

definition predict_with_model ::
  "polyfit_floats \<Rightarrow> (feature_row list \<Rightarrow> real option) \<Rightarrow> real \<Rightarrow> feature_row list \<Rightarrow> string
   \<Rightarrow> string \<Rightarrow> SignalDropPrediction option" where
  "predict_with_model polyfit model now features did sid =
     (case model features of
        None \<Rightarrow> None
      | Some drop_probability \<Rightarrow>
          if features = [] then None
          else
          (let predicted_bandwidth = f_bandwidth (last features) * 1500.0 + 2000.0
           in if drop_probability \<ge> PREDICTION_THRESHOLD
              then (case estimate_time_to_drop polyfit features of
                      Inl e \<Rightarrow> None
                    | Inr time_to_drop \<Rightarrow>
                   (case make_prediction
                      \<lparr>d_device_id = did, d_session_id = sid, d_timestamp = now,
                       confidence = drop_probability,
                       predicted_time_seconds = time_to_drop,
                       predicted_bandwidth_kbps = max 0 predicted_bandwidth,
                       prediction_horizon_seconds = prediction_horizon,
                       model_version = ''lstm_v1'',
                       predictor_type = ''lstm'',
                       features_used = [''signal_strength'', ''latency_ms'',
                                        ''packet_loss_percent'', ''bandwidth_kbps'',
                                        ''gps_velocity_kmh'']\<rparr> of
                      Inl e \<Rightarrow> None
                    | Inr p \<Rightarrow> Some p))
              else None))"

text \<open>\<^verbatim>\<open>predict_signal_drop\<close>; \<open>model\<close> is \<^verbatim>\<open>self.model\<close>, \<open>None\<close> when no model is loaded.\<close>

definition predict_signal_drop ::
  "polyfit_floats \<Rightarrow> polyfit_ints \<Rightarrow> (feature_row list \<Rightarrow> real option) option \<Rightarrow> real
   \<Rightarrow> NetworkTelemetry list \<Rightarrow> string \<Rightarrow> string \<Rightarrow> py_error + SignalDropPrediction option" where
  "predict_signal_drop polyfit polyfit_int model now telemetry_history did sid =
     (if length telemetry_history < sequence_length then Inr None
      else (let recent_points = py_last_n sequence_length telemetry_history;
                features = prepare_features recent_points
            in case model of
                 Some m \<Rightarrow> Inr (predict_with_model polyfit m now features did sid)
               | None \<Rightarrow> predict_with_heuristic polyfit polyfit_int now recent_points did sid))"

subsection \<open>The heuristic as the specification words it\<close>

text \<open>
  The slope of the least-squares line of the values against their index, in its centred
  form: the covariance of index and value over the variance of the index.
\<close>

definition least_squares_slope :: "real list \<Rightarrow> real" where
  "least_squares_slope ys =
     (let n = length ys;
          xbar = (\<Sum>i<n. real i) / real n;
          ybar = (\<Sum>i<n. ys ! i) / real n
      in (\<Sum>i<n. (real i - xbar) * (ys ! i - ybar)) / (\<Sum>i<n. (real i - xbar) * (real i - xbar)))"

text \<open>
  The same slope from the sums of the normal equations, the form in which it is evaluated
  on given numbers.
\<close>

definition slope_by_sums :: "real list \<Rightarrow> real" where
  "slope_by_sums ys =
     (let n = length ys;
          xs = map real [0..<n];
          sx = sum_list xs;
          sy = sum_list ys;
          sxx = sum_list (map (\<lambda>x. x * x) xs);
          sxy = sum_list (map2 (*) xs ys);
          den = real n * sxx - sx * sx
      in if den = 0 then 0 else (real n * sxy - sx * sy) / den)"

text \<open>
  A fit for the examples: the least-squares slope without rounding. It stands in the place
  of numpy's on the windows evaluated below, which have ten points and latencies of three
  digits.
\<close>

definition exact_polyfit :: polyfit_floats where
  "exact_polyfit ys = Inr (slope_by_sums ys)"

definition exact_polyfit_int :: polyfit_ints where
  "exact_polyfit_int ys = Inr (slope_by_sums (map real_of_int ys))"

text \<open>
  The confidence of section 4.2 of the specification, from the three slopes and the
  current point: three trend flags, a base of 0.6 when at least two hold, three additions
  for the current values, clamped to the unit interval.
\<close>

definition spec_heuristic_confidence :: "real \<Rightarrow> real \<Rightarrow> real \<Rightarrow> NetworkTelemetry \<Rightarrow> real" where
  "spec_heuristic_confidence signalSlope bandwidthSlope latencySlope current =
     (let signalDeclining = signalSlope < - 0.05;
          bandwidthDeclining = bandwidthSlope < - 100;
          latencyIncreasing = latencySlope > 50;
          indicatorsTriggered = (if signalDeclining then 1 else 0)
            + (if bandwidthDeclining then 1 else 0) + (if latencyIncreasing then (1::nat) else 0);
          base = (if indicatorsTriggered \<ge> 2 then 0.6 else 0.0);
          raised = base + (if signal_strength current < 0.3 then 0.2 else 0)
            + (if bandwidth_kbps current < 500 then 0.15 else 0)
            + (if latency_ms current > 500 then 0.15 else 0)
      in max 0 (min 1 raised))"

text \<open>
  Scenario A: ten points at one second intervals, the signal falling evenly from 0.9 to
  0.1 and the bandwidth from 3000 to 200 Kbps; the latencies are left open.
\<close>

definition scenario_A_point :: "nat \<Rightarrow> int \<Rightarrow> NetworkTelemetry" where
  "scenario_A_point i lat =
     \<lparr>n_device_id = ''device_abc123'', n_session_id = ''session_xyz789'',
      n_timestamp = 1709251200 + real i,
      signal_strength = 0.9 - real i * 0.8 / 9, latency_ms = lat,
      packet_loss_percent = 2.5, bandwidth_kbps = 3000 - real i * 2800 / 9,
      gps_velocity_kmh = 45, location_hash = None, n_content_id = None,
      n_content_position = None\<rparr>"

definition scenario_A_window :: "(nat \<Rightarrow> int) \<Rightarrow> NetworkTelemetry list" where
  "scenario_A_window lat = map (\<lambda>i. scenario_A_point i (lat i)) [0..<10]"

text \<open>
  A steady window for comparison: ten points of a good connection, all alike but for the
  time.
\<close>

definition steady_window :: "NetworkTelemetry list" where
  "steady_window =
     map (\<lambda>i. \<lparr>n_device_id = ''device_abc123'', n_session_id = ''session_xyz789'',
       n_timestamp = 1709251190 + real i, signal_strength = 0.75, latency_ms = 150,
       packet_loss_percent = 2.5, bandwidth_kbps = 1200, gps_velocity_kmh = 45,
       location_hash = None, n_content_id = None, n_content_position = None\<rparr>) [0..<10]"

subsection \<open>Sequences of ingest operations\<close>

definition ingest_all :: "sentry \<Rightarrow> NetworkTelemetry list \<Rightarrow> sentry" where
  "ingest_all s points = foldl (\<lambda>s1 t. snd (ingest_telemetry s1 t)) s points"

text \<open>The key under which a point is stored.\<close>

definition point_key :: "NetworkTelemetry \<Rightarrow> string" where
  "point_key t = session_key (n_device_id t) (n_session_id t)"

definition example_point :: "string \<Rightarrow> string \<Rightarrow> real \<Rightarrow> NetworkTelemetry" where
  "example_point did sid ts =
     \<lparr>n_device_id = did, n_session_id = sid, n_timestamp = ts, signal_strength = 0.75,
      latency_ms = 150, packet_loss_percent = 2.5, bandwidth_kbps = 1200,
      gps_velocity_kmh = 45, location_hash = None, n_content_id = None,
      n_content_position = None\<rparr>"

definition example_prediction :: "real \<Rightarrow> SignalDropPrediction" where
  "example_prediction ts =
     \<lparr>d_device_id = ''device_abc123'', d_session_id = ''session_xyz789'', d_timestamp = ts,
      confidence = 0.85, predicted_time_seconds = 3.5, predicted_bandwidth_kbps = 450,
      prediction_horizon_seconds = 5, model_version = ''heuristic_fallback'',
      predictor_type = ''heuristic'', features_used = []\<rparr>"

text \<open>The first \<open>n\<close> points of one session, one per second.\<close>

definition example_stream :: "nat \<Rightarrow> NetworkTelemetry list" where
  "example_stream n = map (\<lambda>i. example_point ''dev1'' ''s1'' (real i)) [0..<n]"


subsection \<open>Sequences of orchestrator calls\<close>

datatype orchestrator_call =
    Decide real int ModalityDecisionRequest oracle_outcome
  | Panic real PanicSignalRequest

fun run_call :: "session_states \<Rightarrow> orchestrator_call \<Rightarrow> session_states" where
  "run_call st (Decide now elapsed_ms request outcome) =
     snd (decide_modality_transition st now elapsed_ms request outcome)"
| "run_call st (Panic now request) = snd (handle_panic_signal st now request)"

definition run_calls :: "session_states \<Rightarrow> orchestrator_call list \<Rightarrow> session_states" where
  "run_calls st calls = foldl run_call st calls"

text \<open>
  The log of a session: the modality changes that a call decides for session \<open>sid\<close> and
  hands to \<^verbatim>\<open>_update_session_state\<close>, as the history entry it makes of them.
\<close>

definition change_entry :: "string \<Rightarrow> string \<Rightarrow> real \<Rightarrow> Modality \<Rightarrow> Modality \<Rightarrow> real \<Rightarrow> transition list" where
  "change_entry sid request_sid now from_modality to_modality pos =
     (if request_sid = sid \<and> from_modality \<noteq> to_modality
      then [\<lparr>t_from = from_modality, t_to = to_modality, t_timestamp = now,
             t_position = pos, t_success = True\<rparr>]
      else [])"

fun recorded :: "string \<Rightarrow> orchestrator_call \<Rightarrow> transition list" where
  "recorded sid (Panic now request) =
     change_entry sid (p_session_id request) now (p_current_modality request)
       (target_modality (panic_decision now request)) (p_content_position request)"
| "recorded sid (Decide now elapsed_ms request outcome) =
     (case get_modality_decision request outcome of
        Inl e \<Rightarrow> []
      | Inr d \<Rightarrow>
          (case build_response now elapsed_ms d of
             Inl e \<Rightarrow> []
           | Inr response \<Rightarrow>
               change_entry sid (session_id request) now (current_modality request)
                 (target_modality response) (content_position request)))"

definition session_log :: "string \<Rightarrow> orchestrator_call list \<Rightarrow> transition list" where
  "session_log sid calls = concat (map (recorded sid) calls)"

text \<open>
  A table entry agrees with a log: no entry and nothing logged, or an entry whose counters
  count the log and whose history is the last ten entries of it.
\<close>

definition tracks :: "ModalityStatus option \<Rightarrow> transition list \<Rightarrow> bool" where
  "tracks entry lg =
     (case entry of
        None \<Rightarrow> lg = []
      | Some s \<Rightarrow> transition_count s = int (length lg)
                 \<and> successful_transitions s = int (length lg)
                 \<and> failed_transitions s = 0
                 \<and> s_transition_history s = py_last_n 10 lg)"

text \<open>
  The \<^verbatim>\<open>try\<close> block of \<^verbatim>\<open>decide_modality_transition\<close> raises: in the client call, or when
  the decision data cannot be made into a response.
\<close>

definition try_block_raises :: "real \<Rightarrow> int \<Rightarrow> ModalityDecisionRequest \<Rightarrow> oracle_outcome \<Rightarrow> bool" where
  "try_block_raises now elapsed_ms request outcome =
     (case get_modality_decision request outcome of
        Inl e \<Rightarrow> True
      | Inr d \<Rightarrow> isl (build_response now elapsed_ms d))"

text \<open>A reply that names a modality the enum does not have.\<close>

definition unknown_modality_reply :: decision_data where
  "unknown_modality_reply =
     \<lparr>dd_target_modality = Val ''HOLOGRAM'', dd_transition_timing = Val ''IMMEDIATE'',
      dd_reasoning = Val ''Switch to a hologram.'', dd_fallback_strategy = Absent,
      dd_decision_confidence = ConfNumber 0.9, dd_model_used = Absent,
      dd_processing_time_ms = None\<rparr>"


text \<open>A reply object with the given modality, timing and confidence.\<close>

definition reply_with :: "string field \<Rightarrow> string field \<Rightarrow> confidence_input \<Rightarrow> decision_data" where
  "reply_with target timing conf =
     \<lparr>dd_target_modality = target, dd_transition_timing = timing,
      dd_reasoning = Val ''Bandwidth is dropping.'', dd_fallback_strategy = Null,
      dd_decision_confidence = conf, dd_model_used = Absent,
      dd_processing_time_ms = None\<rparr>"


subsection \<open>Concrete requests\<close>

definition panic_request :: "string \<Rightarrow> string \<Rightarrow> Modality \<Rightarrow> real \<Rightarrow> real \<Rightarrow> PanicSignalRequest" where
  "panic_request did sid m bandwidth buffer_level =
     \<lparr>p_device_id = did, p_session_id = sid, p_content_id = ''video_edu_123'',
      p_content_position = 125, p_current_modality = m,
      current_bandwidth_kbps = bandwidth, is_buffering = True,
      buffer_level_seconds = buffer_level\<rparr>"

definition decision_request :: "string \<Rightarrow> string \<Rightarrow> Modality \<Rightarrow> real \<Rightarrow> real \<Rightarrow> ModalityDecisionRequest" where
  "decision_request did sid m bandwidth visual =
     \<lparr>device_id = did, session_id = sid, content_id = ''video_edu_123'',
      content_position = 120.5, available_bandwidth_kbps = bandwidth,
      predicted_signal_drop = True, prediction_confidence = 0.85,
      time_to_signal_drop = Some 3.5, content_description = None,
      key_concepts = Some [], visual_dependency_score = visual,
      current_modality = m, transition_history = []\<rparr>"

text \<open>A panic to audio, a decision back to video by the client's fallback, a panic to text.\<close>

definition example_calls :: "orchestrator_call list" where
  "example_calls =
     [Panic 1 (panic_request ''device_abc123'' ''session_xyz789'' VIDEO 700 5.0),
      Decide 2 120 (decision_request ''device_abc123'' ''session_xyz789'' AUDIO 1200 0.5)
        InvokeFailed,
      Panic 3 (panic_request ''device_abc123'' ''session_xyz789'' VIDEO 200 0.5)]"

section \<open>Properties\<close>

subsection \<open>Slices and the session table\<close>

lemmas eval_defs = run_calls_def handle_panic_signal_def panic_decision_def Let_def
  update_session_state_def new_status_def record_transition_def py_last_n_def
  VIDEO_MIN_BANDWIDTH_def AUDIO_MIN_BANDWIDTH_def panic_request_def decision_request_def
  decide_modality_transition_def get_modality_decision_def get_fallback_decision_def
  build_response_def enum_field_def str_field_def opt_str_field_def unit_float_field_def
  in_unit_interval_def Modality_of_def TransitionTiming_of_def get_safe_fallback_decision_def

lemma py_last_n_short: "length xs \<le> n \<Longrightarrow> py_last_n n xs = xs"
  by (simp add: py_last_n_def)

lemma py_last_n_trim: "(if length xs > n then py_last_n n xs else xs) = py_last_n n xs"
  by (simp add: py_last_n_def)

lemma length_py_last_n: "length (py_last_n n xs) = min n (length xs)"
  by (simp add: py_last_n_def)

lemma py_last_n_snoc:
  assumes "0 < n"
  shows "py_last_n n (py_last_n n xs @ [x]) = py_last_n n (xs @ [x])"
proof (cases "length xs \<le> n")
  case True
  then show ?thesis by (simp add: py_last_n_def)
next
  case False
  with assms have "Suc (length xs) - n = Suc (length xs - n)" by arith
  with False assms show ?thesis by (simp add: py_last_n_def)
qed

lemma update_session_state_other:
  "k \<noteq> sid \<Longrightarrow> update_session_state st now sid did cid a b pos ok k = st k"
  by (simp add: update_session_state_def Let_def)

subsection \<open>The panic rule\<close>

text \<open>
  Claim C6. For every panic request, \<^verbatim>\<open>handle_panic_signal\<close> answers TEXT_SUMMARY, IMMEDIATE,
  confidence 0.95 when the bandwidth is below 500 Kbps or the buffer level below 1.0 s, and
  otherwise AUDIO, IMMEDIATE, confidence 0.90 when the bandwidth is below 1000 Kbps. In
  particular bandwidth 200 with buffer level 0.5 gives TEXT_SUMMARY/IMMEDIATE/0.95 and
  bandwidth 700 with buffer level 5.0 gives AUDIO/IMMEDIATE/0.90.
\<close>

theorem handle_panic_signal_rule:
  "((current_bandwidth_kbps req < 500 \<or> buffer_level_seconds req < 1) \<longrightarrow>
      target_modality (fst (handle_panic_signal st now req)) = TEXT_SUMMARY
    \<and> transition_timing (fst (handle_panic_signal st now req)) = IMMEDIATE
    \<and> decision_confidence (fst (handle_panic_signal st now req)) = 0.95)
  \<and> ((\<not> (current_bandwidth_kbps req < 500 \<or> buffer_level_seconds req < 1)
       \<and> current_bandwidth_kbps req < 1000) \<longrightarrow>
      target_modality (fst (handle_panic_signal st now req)) = AUDIO
    \<and> transition_timing (fst (handle_panic_signal st now req)) = IMMEDIATE
    \<and> decision_confidence (fst (handle_panic_signal st now req)) = 0.90)
  \<and> ((current_bandwidth_kbps req = 200 \<and> buffer_level_seconds req = 0.5) \<longrightarrow>
      target_modality (fst (handle_panic_signal st now req)) = TEXT_SUMMARY
    \<and> transition_timing (fst (handle_panic_signal st now req)) = IMMEDIATE
    \<and> decision_confidence (fst (handle_panic_signal st now req)) = 0.95)
  \<and> ((current_bandwidth_kbps req = 700 \<and> buffer_level_seconds req = 5.0) \<longrightarrow>
      target_modality (fst (handle_panic_signal st now req)) = AUDIO
    \<and> transition_timing (fst (handle_panic_signal st now req)) = IMMEDIATE
    \<and> decision_confidence (fst (handle_panic_signal st now req)) = 0.90)"
  by (simp add: handle_panic_signal_def panic_decision_def Let_def
      AUDIO_MIN_BANDWIDTH_def VIDEO_MIN_BANDWIDTH_def)

theorem handle_panic_signal_rule_witness:
  "current_bandwidth_kbps (panic_request ''device_abc123'' ''session_xyz789'' VIDEO 200 0.5) = 200
   \<and> buffer_level_seconds (panic_request ''device_abc123'' ''session_xyz789'' VIDEO 200 0.5) = 0.5
   \<and> target_modality (fst (handle_panic_signal Map.empty 10
        (panic_request ''device_abc123'' ''session_xyz789'' VIDEO 200 0.5))) = TEXT_SUMMARY
   \<and> decision_confidence (fst (handle_panic_signal Map.empty 10
        (panic_request ''device_abc123'' ''session_xyz789'' VIDEO 200 0.5))) = 0.95
   \<and> current_bandwidth_kbps (panic_request ''device_abc123'' ''session_xyz789'' VIDEO 700 5.0) = 700
   \<and> target_modality (fst (handle_panic_signal Map.empty 10
        (panic_request ''device_abc123'' ''session_xyz789'' VIDEO 700 5.0))) = AUDIO
   \<and> transition_timing (fst (handle_panic_signal Map.empty 10
        (panic_request ''device_abc123'' ''session_xyz789'' VIDEO 700 5.0))) = IMMEDIATE
   \<and> decision_confidence (fst (handle_panic_signal Map.empty 10
        (panic_request ''device_abc123'' ''session_xyz789'' VIDEO 700 5.0))) = 0.90"
  using handle_panic_signal_rule
          [of "panic_request ''device_abc123'' ''session_xyz789'' VIDEO 200 0.5" Map.empty 10]
        handle_panic_signal_rule
          [of "panic_request ''device_abc123'' ''session_xyz789'' VIDEO 700 5.0" Map.empty 10]
  by (simp add: panic_request_def)

text \<open>
  Claim C10. The decision of \<^verbatim>\<open>handle_panic_signal\<close> has timing IMMEDIATE or WAIT_2S, never
  WAIT_5S; its confidence is one of 0.95, 0.90 and 0.80; and when the timing is WAIT_2S the
  target is the request's current modality, so the session's transition count, history and
  success and failure counters are what they were before the call (zero and empty for a
  session that had no state).
\<close>

theorem panic_path_shape:
  "(transition_timing (fst (handle_panic_signal st now req)) = IMMEDIATE
      \<or> transition_timing (fst (handle_panic_signal st now req)) = WAIT_2S)
   \<and> transition_timing (fst (handle_panic_signal st now req)) \<noteq> WAIT_5S
   \<and> (decision_confidence (fst (handle_panic_signal st now req)) = 0.95
      \<or> decision_confidence (fst (handle_panic_signal st now req)) = 0.90
      \<or> decision_confidence (fst (handle_panic_signal st now req)) = 0.80)
   \<and> (transition_timing (fst (handle_panic_signal st now req)) = WAIT_2S \<longrightarrow>
        target_modality (fst (handle_panic_signal st now req)) = p_current_modality req
      \<and> (\<exists>s'. snd (handle_panic_signal st now req) (p_session_id req) = Some s'
            \<and> transition_count s' =
                (case st (p_session_id req) of None \<Rightarrow> 0 | Some s \<Rightarrow> transition_count s)
            \<and> s_transition_history s' =
                (case st (p_session_id req) of None \<Rightarrow> [] | Some s \<Rightarrow> s_transition_history s)
            \<and> successful_transitions s' =
                (case st (p_session_id req) of None \<Rightarrow> 0 | Some s \<Rightarrow> successful_transitions s)
            \<and> failed_transitions s' =
                (case st (p_session_id req) of None \<Rightarrow> 0 | Some s \<Rightarrow> failed_transitions s)))"
  by (auto simp: handle_panic_signal_def panic_decision_def Let_def update_session_state_def
       new_status_def split: option.splits)

theorem panic_path_shape_witness:
  "transition_timing (fst (handle_panic_signal Map.empty 10
        (panic_request ''device_abc123'' ''session_xyz789'' AUDIO 1500 5.0))) = WAIT_2S
   \<and> target_modality (fst (handle_panic_signal Map.empty 10
        (panic_request ''device_abc123'' ''session_xyz789'' AUDIO 1500 5.0))) = AUDIO
   \<and> map_option transition_count (snd (handle_panic_signal Map.empty 10
        (panic_request ''device_abc123'' ''session_xyz789'' AUDIO 1500 5.0)) ''session_xyz789'')
      = Some 0"
  using panic_path_shape
          [of Map.empty 10 "panic_request ''device_abc123'' ''session_xyz789'' AUDIO 1500 5.0"]
  by (simp add: panic_request_def handle_panic_signal_def panic_decision_def Let_def
      update_session_state_def new_status_def VIDEO_MIN_BANDWIDTH_def AUDIO_MIN_BANDWIDTH_def)

subsection \<open>The session state along a sequence of calls\<close>

lemma update_tracks:
  assumes "tracks (st k) lg"
  shows "tracks (update_session_state st now sid did cid a b pos True k)
           (lg @ change_entry k sid now a b pos)"
proof (cases "k = sid")
  case False
  with assms show ?thesis
    by (simp add: update_session_state_other change_entry_def)
next
  case True
  show ?thesis
  proof (cases "a = b")
    case same: True
    with True assms show ?thesis
      by (auto simp: update_session_state_def Let_def change_entry_def tracks_def
            new_status_def py_last_n_def split: option.splits)
  next
    case diff: False
    have snoc: "py_last_n 10 (py_last_n 10 lg @ [x]) = py_last_n 10 (lg @ [x])"
      for x :: transition
      by (rule py_last_n_snoc) simp
    from True diff assms show ?thesis
      by (auto simp: update_session_state_def Let_def change_entry_def tracks_def
            new_status_def record_transition_def py_last_n_trim snoc split: option.splits)
  qed
qed

lemma run_call_tracks:
  assumes "tracks (st k) lg"
  shows "tracks (run_call st c k) (lg @ recorded k c)"
proof (cases c)
  case (Panic now request)
  with assms update_tracks [of st k lg] show ?thesis
    by (simp add: handle_panic_signal_def Let_def)
next
  case (Decide now elapsed_ms request outcome)
  with assms update_tracks [of st k lg] show ?thesis
    by (simp add: decide_modality_transition_def split: sum.splits)
qed

lemma run_calls_tracks:
  "tracks (st k) lg \<Longrightarrow> tracks (run_calls st calls k) (lg @ session_log k calls)"
proof (induction calls arbitrary: st lg)
  case Nil
  then show ?case by (simp add: run_calls_def session_log_def)
next
  case (Cons c calls)
  from Cons.prems have "tracks (run_call st c k) (lg @ recorded k c)"
    by (rule run_call_tracks)
  from Cons.IH [of "run_call st c" "lg @ recorded k c", OF this]
  show ?case by (simp add: run_calls_def session_log_def)
qed

lemma last_py_last_n: "0 < n \<Longrightarrow> xs \<noteq> [] \<Longrightarrow> last (py_last_n n xs) = last xs"
  by (simp add: py_last_n_def)

text \<open>
  Claim C4. After any sequence of \<^verbatim>\<open>decide\<close> and \<^verbatim>\<open>handlePanic\<close> calls on a fresh
  orchestrator, every session state has transition count = successes + failures, and a
  history of at most 10 entries: the last ten modality changes decided for the session, in
  call order, so the most recent one is last.
\<close>

theorem session_counters_and_history:
  assumes "run_calls Map.empty calls sid = Some s"
  shows "transition_count s = successful_transitions s + failed_transitions s
       \<and> length (s_transition_history s) \<le> 10
       \<and> s_transition_history s = py_last_n 10 (session_log sid calls)
       \<and> transition_count s = int (length (session_log sid calls))
       \<and> (session_log sid calls = []
          \<or> last (s_transition_history s) = last (session_log sid calls))"
proof -
  have "tracks (Map.empty sid) []" by (simp add: tracks_def)
  with run_calls_tracks [of Map.empty sid "[]" calls]
  have t: "tracks (run_calls Map.empty calls sid) (session_log sid calls)" by simp
  have "session_log sid calls = []
      \<or> last (py_last_n 10 (session_log sid calls)) = last (session_log sid calls)"
    using last_py_last_n [of 10 "session_log sid calls"] by auto
  with t assms show ?thesis by (auto simp: tracks_def length_py_last_n)
qed

lemma example_calls_state:
  "\<exists>s. run_calls Map.empty example_calls ''session_xyz789'' = Some s"
  by (simp add: example_calls_def eval_defs)

theorem session_counters_and_history_witness:
  "map_option transition_count (run_calls Map.empty example_calls ''session_xyz789'') = Some 3
 \<and> map_option (\<lambda>s. successful_transitions s + failed_transitions s)
      (run_calls Map.empty example_calls ''session_xyz789'') = Some 3
 \<and> map_option (\<lambda>s. map t_to (s_transition_history s))
      (run_calls Map.empty example_calls ''session_xyz789'') = Some [AUDIO, VIDEO, TEXT_SUMMARY]"
proof -
  obtain s where s: "run_calls Map.empty example_calls ''session_xyz789'' = Some s"
    using example_calls_state by blast
  have lg: "map t_to (session_log ''session_xyz789'' example_calls) = [AUDIO, VIDEO, TEXT_SUMMARY]"
    by (simp add: session_log_def example_calls_def change_entry_def eval_defs)
  from session_counters_and_history [OF s] lg s show ?thesis
    by (auto simp: py_last_n_def)
qed

subsection \<open>Isolation of sessions\<close>

text \<open>
  Claim C3, amended. The session id alone is the unit of isolation of the orchestrator's
  table: a \<^verbatim>\<open>decide\<close>, \<^verbatim>\<open>handlePanic\<close>, \<^verbatim>\<open>status\<close> or \<^verbatim>\<open>clear\<close> for session id \<open>sid\<close> leaves the
  entry of every other session id \<open>k\<close> as it was, and neither its answer nor the new entry
  of \<open>sid\<close> depends on what the table holds for \<open>k\<close>. The device id is not part of the key.
\<close>

theorem session_id_isolation:
  assumes "k \<noteq> sid"
  shows "(session_id req = sid \<longrightarrow>
            snd (decide_modality_transition st now ms req out) k = st k
          \<and> fst (decide_modality_transition (st(k := x)) now ms req out)
              = fst (decide_modality_transition st now ms req out)
          \<and> snd (decide_modality_transition (st(k := x)) now ms req out) sid
              = snd (decide_modality_transition st now ms req out) sid)
       \<and> (p_session_id preq = sid \<longrightarrow>
            snd (handle_panic_signal st now preq) k = st k
          \<and> fst (handle_panic_signal (st(k := x)) now preq)
              = fst (handle_panic_signal st now preq)
          \<and> snd (handle_panic_signal (st(k := x)) now preq) sid
              = snd (handle_panic_signal st now preq) sid)
       \<and> clear_session st sid k = st k
       \<and> clear_session (st(k := x)) sid sid = clear_session st sid sid
       \<and> get_session_status (st(k := x)) sid = get_session_status st sid"
  using assms
  by (auto simp: decide_modality_transition_def handle_panic_signal_def Let_def
        update_session_state_def clear_session_def get_session_status_def dom_def
        split: sum.splits)

text \<open>
  Two requests with the same session id and different device ids share one entry: the
  second one changes the state the first one created.
\<close>

theorem device_id_not_isolated:
  "p_device_id (panic_request ''device_A'' ''session_1'' VIDEO 700 5.0)
     \<noteq> p_device_id (panic_request ''device_B'' ''session_1'' AUDIO 200 0.5)
   \<and> p_session_id (panic_request ''device_A'' ''session_1'' VIDEO 700 5.0)
     = p_session_id (panic_request ''device_B'' ''session_1'' AUDIO 200 0.5)
   \<and> map_option s_device_id (get_session_status (run_calls Map.empty
        [Panic 1 (panic_request ''device_A'' ''session_1'' VIDEO 700 5.0)]) ''session_1'')
      = Some ''device_A''
   \<and> map_option transition_count (get_session_status (run_calls Map.empty
        [Panic 1 (panic_request ''device_A'' ''session_1'' VIDEO 700 5.0)]) ''session_1'')
      = Some 1
   \<and> map_option s_device_id (get_session_status (run_calls Map.empty
        [Panic 1 (panic_request ''device_A'' ''session_1'' VIDEO 700 5.0),
         Panic 2 (panic_request ''device_B'' ''session_1'' AUDIO 200 0.5)]) ''session_1'')
      = Some ''device_A''
   \<and> map_option transition_count (get_session_status (run_calls Map.empty
        [Panic 1 (panic_request ''device_A'' ''session_1'' VIDEO 700 5.0),
         Panic 2 (panic_request ''device_B'' ''session_1'' AUDIO 200 0.5)]) ''session_1'')
      = Some 2
   \<and> map_option s_current_modality (get_session_status (run_calls Map.empty
        [Panic 1 (panic_request ''device_A'' ''session_1'' VIDEO 700 5.0),
         Panic 2 (panic_request ''device_B'' ''session_1'' AUDIO 200 0.5)]) ''session_1'')
      = Some TEXT_SUMMARY"
  by (simp add: get_session_status_def eval_defs)

theorem session_id_isolation_witness:
  "''session_2'' \<noteq> ''session_1''
   \<and> snd (handle_panic_signal
        (run_calls Map.empty [Panic 1 (panic_request ''device_A'' ''session_2'' VIDEO 700 5.0)])
        2 (panic_request ''device_B'' ''session_1'' AUDIO 200 0.5)) ''session_2''
     = run_calls Map.empty [Panic 1 (panic_request ''device_A'' ''session_2'' VIDEO 700 5.0)]
         ''session_2''
   \<and> map_option s_device_id (run_calls Map.empty
         [Panic 1 (panic_request ''device_A'' ''session_2'' VIDEO 700 5.0)] ''session_2'')
     = Some ''device_A''"
  using session_id_isolation [of "''session_2''" "''session_1''"
          "decision_request ''device_B'' ''session_1'' VIDEO 1200 0.5"
          "run_calls Map.empty [Panic 1 (panic_request ''device_A'' ''session_2'' VIDEO 700 5.0)]"
          2 120 InvokeFailed None "panic_request ''device_B'' ''session_1'' AUDIO 200 0.5"]
  by (simp add: eval_defs)

subsection \<open>Fallback decisions\<close>






lemma isl_bind:
  "isl (case x of Inl e \<Rightarrow> Inl e | Inr v \<Rightarrow> g v) \<longleftrightarrow> isl x \<or> (\<exists>v. x = Inr v \<and> isl (g v))"
  by (cases x) auto










text \<open>
  Claim C2 at a reply with an unknown modality: \<^verbatim>\<open>decide\<close> answers with the orchestrator's
  fallback (AUDIO at bandwidth 700) and returns without a state for the session.
\<close>

theorem decide_unusable_reply_skips_update:
  "try_block_raises 2 120 (decision_request ''device_abc123'' ''session_xyz789'' VIDEO 700 0.5)
      (ContentObject 450 unknown_modality_reply)
 \<and> target_modality (fst (decide_modality_transition Map.empty 2 120
      (decision_request ''device_abc123'' ''session_xyz789'' VIDEO 700 0.5)
      (ContentObject 450 unknown_modality_reply))) = AUDIO
 \<and> get_session_status (snd (decide_modality_transition Map.empty 2 120
      (decision_request ''device_abc123'' ''session_xyz789'' VIDEO 700 0.5)
      (ContentObject 450 unknown_modality_reply))) ''session_xyz789'' = None"
  by (simp add: eval_defs try_block_raises_def unknown_modality_reply_def get_session_status_def)


text \<open>
  A confidence given as the string \<^verbatim>\<open>"0.9"\<close> is read as 0.9: the reply is used, with its
  timing, and the session state is updated.
\<close>

lemma numeric_string_confidence_is_read:
  "transition_timing (fst (decide_modality_transition Map.empty 2 120
      (decision_request ''device_abc123'' ''session_xyz789'' VIDEO 700 0.5)
      (ContentObject 450 (reply_with (Val ''AUDIO'') (Val ''WAIT_5S'') (ConfNumericString 0.9)))))
     = WAIT_5S
 \<and> decision_confidence (fst (decide_modality_transition Map.empty 2 120
      (decision_request ''device_abc123'' ''session_xyz789'' VIDEO 700 0.5)
      (ContentObject 450 (reply_with (Val ''AUDIO'') (Val ''WAIT_5S'') (ConfNumericString 0.9)))))
     = 0.9
 \<and> map_option s_current_modality (snd (decide_modality_transition Map.empty 2 120
      (decision_request ''device_abc123'' ''session_xyz789'' VIDEO 700 0.5)
      (ContentObject 450 (reply_with (Val ''AUDIO'') (Val ''WAIT_5S'') (ConfNumericString 0.9))))
      ''session_xyz789'') = Some AUDIO"
  by (simp add: eval_defs reply_with_def)


lemma decide_updates_unless_raises:
  assumes "\<not> try_block_raises now ms req out"
  shows "\<exists>s. snd (decide_modality_transition st now ms req out) (session_id req) = Some s
            \<and> s_current_modality s = target_modality (fst (decide_modality_transition st now ms req out))
            \<and> s_content_position s = content_position req
            \<and> last_transition_timestamp s = Some now"
  using assms
  by (auto simp: try_block_raises_def decide_modality_transition_def update_session_state_def
        Let_def split: sum.splits)

subsection \<open>The telemetry buffer\<close>

lemma buffered_ingest:
  "buffered (snd (ingest_telemetry s t)) k =
     (if point_key t = k then py_last_n max_buffer_size (buffered s k @ [t]) else buffered s k)"
  by (simp add: ingest_telemetry_def buffered_def point_key_def Let_def py_last_n_trim)

lemma ingest_all_snoc:
  "ingest_all s (points @ [t]) = snd (ingest_telemetry (ingest_all s points) t)"
  by (simp add: ingest_all_def)

lemma buffered_ingest_all:
  "buffered (ingest_all sentry_init points) k
     = py_last_n max_buffer_size (filter (\<lambda>t. point_key t = k) points)"
proof (induction points rule: rev_induct)
  case Nil
  show ?case by (simp add: ingest_all_def buffered_def sentry_init_def py_last_n_def)
next
  case (snoc t points)
  have "0 < max_buffer_size" by (simp add: max_buffer_size_def)
  then show ?case
    by (simp add: ingest_all_snoc buffered_ingest snoc.IH py_last_n_snoc)
qed

lemma batch_is_ingest_all:
  "ingest_telemetry_batch s batch = (length batch, ingest_all s batch)"
  by (induction batch arbitrary: s)
     (simp_all add: ingest_all_def ingest_telemetry_def Let_def split: prod.splits)

lemma separator_splits_once:
  "x \<notin> set d \<Longrightarrow> x \<notin> set d' \<Longrightarrow> d @ x # s = d' @ x # s' \<Longrightarrow> d = d' \<and> s = s'"
proof (induction d arbitrary: d')
  case Nil
  then show ?case by (cases d') auto
next
  case (Cons a d)
  then show ?case by (cases d') auto
qed

lemma session_key_inj:
  assumes "CHR '':'' \<notin> set d" and "CHR '':'' \<notin> set d'"
  shows "session_key d s = session_key d' s' \<longleftrightarrow> d = d' \<and> s = s'"
  using separator_splits_once [OF assms, of s s'] by (auto simp: session_key_def)

lemma example_stream_timestamps:
  "map n_timestamp (drop k (example_stream n)) = map real [k..<n]"
  by (simp add: example_stream_def example_point_def drop_map comp_def)

lemma suffix_is_drop: "suffix ys xs \<Longrightarrow> ys = drop (length xs - length ys) xs"
  by (auto simp: suffix_def)

lemma buffered_suffix:
  "length (buffered (ingest_all sentry_init points) k)
       = min 100 (length (filter (\<lambda>t. point_key t = k) points))
   \<and> suffix (buffered (ingest_all sentry_init points) k) (filter (\<lambda>t. point_key t = k) points)"
  by (simp add: buffered_ingest_all py_last_n_def max_buffer_size_def suffix_drop)

text \<open>
  Claim C8, amended. The buffer is keyed by the string \<^verbatim>\<open>device_id:session_id\<close>. For every
  such key and every sequence of ingested points, the buffer of the key never holds more
  than 100 points: it holds the last 100 of the points ingested under that key (all of them
  if there are fewer), in the order of ingestion, the older ones evicted. For a session key
  (device id, session id) this is the claim as stated whenever no device id contains a
  colon.
\<close>

theorem buffer_bounded_fifo:
  "length (buffered (ingest_all sentry_init points) k) \<le> 100
   \<and> length (buffered (ingest_all sentry_init points) k)
       = min 100 (length (filter (\<lambda>t. session_key (n_device_id t) (n_session_id t) = k) points))
   \<and> suffix (buffered (ingest_all sentry_init points) k)
        (filter (\<lambda>t. session_key (n_device_id t) (n_session_id t) = k) points)
   \<and> (((\<forall>t \<in> set points. CHR '':'' \<notin> set (n_device_id t)) \<and> CHR '':'' \<notin> set did) \<longrightarrow>
        length (buffered (ingest_all sentry_init points) (session_key did sid))
          = min 100 (length (filter (\<lambda>t. n_device_id t = did \<and> n_session_id t = sid) points))
      \<and> suffix (buffered (ingest_all sentry_init points) (session_key did sid))
           (filter (\<lambda>t. n_device_id t = did \<and> n_session_id t = sid) points))"
proof (intro conjI impI)
  assume a: "(\<forall>t \<in> set points. CHR '':'' \<notin> set (n_device_id t)) \<and> CHR '':'' \<notin> set did"
  then have "filter (\<lambda>t. point_key t = session_key did sid) points
           = filter (\<lambda>t. n_device_id t = did \<and> n_session_id t = sid) points"
    by (intro filter_cong refl) (simp add: point_key_def session_key_inj)
  with buffered_suffix [of points "session_key did sid"]
  show "length (buffered (ingest_all sentry_init points) (session_key did sid))
          = min 100 (length (filter (\<lambda>t. n_device_id t = did \<and> n_session_id t = sid) points))"
    and "suffix (buffered (ingest_all sentry_init points) (session_key did sid))
           (filter (\<lambda>t. n_device_id t = did \<and> n_session_id t = sid) points)"
    by simp_all
qed (use buffered_suffix [of points k] in \<open>simp_all add: point_key_def\<close>)

text \<open>
  The session keys \<open>(a:b, c)\<close> and \<open>(a, b:c)\<close> differ and give the same string: the buffer
  read for \<open>(a, b:c)\<close> holds a point that was never ingested for that session.
\<close>

theorem colliding_session_keys:
  "(''a:b'', ''c'') \<noteq> (''a'', ''b:c'')
   \<and> filter (\<lambda>t. n_device_id t = ''a'' \<and> n_session_id t = ''b:c'')
        [example_point ''a:b'' ''c'' 1] = []
   \<and> buffered (ingest_all sentry_init [example_point ''a:b'' ''c'' 1]) (session_key ''a'' ''b:c'')
       = [example_point ''a:b'' ''c'' 1]"
  by (simp add: example_point_def ingest_all_def ingest_telemetry_def buffered_def
      sentry_init_def session_key_def max_buffer_size_def Let_def)

theorem buffer_bounded_fifo_witness:
  "length (example_point ''dev2'' ''s9'' 0 # example_stream 102) = 103
   \<and> map n_timestamp (buffered (ingest_all sentry_init
        (example_point ''dev2'' ''s9'' 0 # example_stream 102)) ''dev1:s1'') = map real [2..<102]
   \<and> map n_timestamp (buffered (ingest_all sentry_init
        (example_point ''dev2'' ''s9'' 0 # example_stream 102)) (session_key ''dev2'' ''s9'')) = [0]"
proof -
  let ?pts = "example_point ''dev2'' ''s9'' 0 # example_stream 102"
  have f1: "filter (\<lambda>t. session_key (n_device_id t) (n_session_id t) = ''dev1:s1'') ?pts
          = example_stream 102"
    by (simp add: example_stream_def example_point_def session_key_def filter_map comp_def)
  have f2: "filter (\<lambda>t. n_device_id t = ''dev2'' \<and> n_session_id t = ''s9'') ?pts
          = [example_point ''dev2'' ''s9'' 0]"
    by (simp add: example_stream_def example_point_def filter_map comp_def)
  have h: "(\<forall>t \<in> set ?pts. CHR '':'' \<notin> set (n_device_id t)) \<and> CHR '':'' \<notin> set ''dev2''"
    by (simp add: example_stream_def example_point_def)
  from buffer_bounded_fifo [of ?pts "''dev1:s1''" "''dev2''" "''s9''"] h
  have l1: "length (buffered (ingest_all sentry_init ?pts) ''dev1:s1'') = 100"
    and s1: "suffix (buffered (ingest_all sentry_init ?pts) ''dev1:s1'') (example_stream 102)"
    and l2: "length (buffered (ingest_all sentry_init ?pts) (session_key ''dev2'' ''s9'')) = 1"
    and s2: "suffix (buffered (ingest_all sentry_init ?pts) (session_key ''dev2'' ''s9''))
               [example_point ''dev2'' ''s9'' 0]"
    unfolding f1 f2 by (simp_all add: example_stream_def)
  from suffix_is_drop [OF s1] l1
  have b1: "buffered (ingest_all sentry_init ?pts) ''dev1:s1'' = drop 2 (example_stream 102)"
    by (simp add: example_stream_def)
  from suffix_is_drop [OF s2] l2
  have b2: "buffered (ingest_all sentry_init ?pts) (session_key ''dev2'' ''s9'')
          = [example_point ''dev2'' ''s9'' 0]"
    by simp
  have "length ?pts = 103" by (simp add: example_stream_def)
  moreover have "map n_timestamp [example_point ''dev2'' ''s9'' 0] = [0]"
    by (simp add: example_point_def)
  ultimately show ?thesis
    unfolding b1 b2 example_stream_timestamps by (intro conjI refl)
qed

subsection \<open>The prediction cache\<close>

text \<open>
  Claim C7. \<^verbatim>\<open>_get_cached_prediction\<close> returns a prediction only if it is the cached one
  and its age is below the TTL of 2 seconds; it returns none when the key has no entry or
  the entry's age is at least the TTL, and then the key has no entry afterwards. Other keys
  and the telemetry buffer are untouched.
\<close>

theorem cache_never_stale:
  "(\<forall>p. fst (get_cached_prediction s now k) = Some p \<longrightarrow>
        prediction_cache s k = Some p \<and> now - d_timestamp p < 2)
   \<and> ((prediction_cache s k = None
        \<or> (\<exists>p. prediction_cache s k = Some p \<and> 2 \<le> now - d_timestamp p)) \<longrightarrow>
        fst (get_cached_prediction s now k) = None
      \<and> prediction_cache (snd (get_cached_prediction s now k)) k = None)
   \<and> (\<forall>k'. k' \<noteq> k \<longrightarrow>
        prediction_cache (snd (get_cached_prediction s now k)) k' = prediction_cache s k')
   \<and> telemetry_buffer (snd (get_cached_prediction s now k)) = telemetry_buffer s"
  by (auto simp: get_cached_prediction_def cache_ttl_seconds_def Let_def split: option.splits)

theorem cache_never_stale_witness:
  "prediction_cache (cache_prediction sentry_init ''d:s'' (example_prediction 7)) ''d:s''
     = Some (example_prediction 7)
   \<and> (2::real) \<le> 10 - d_timestamp (example_prediction 7)
   \<and> fst (get_cached_prediction
        (cache_prediction sentry_init ''d:s'' (example_prediction 7)) 10 ''d:s'') = None
   \<and> prediction_cache (snd (get_cached_prediction
        (cache_prediction sentry_init ''d:s'' (example_prediction 7)) 10 ''d:s'')) ''d:s'' = None
   \<and> fst (get_cached_prediction
        (cache_prediction sentry_init ''d:s'' (example_prediction 9)) 10 ''d:s'')
       = Some (example_prediction 9)
   \<and> 10 - d_timestamp (example_prediction 9) < (2::real)"
  using cache_never_stale
          [of "cache_prediction sentry_init ''d:s'' (example_prediction 7)" 10 "''d:s''"]
        cache_never_stale
          [of "cache_prediction sentry_init ''d:s'' (example_prediction 9)" 10 "''d:s''"]
  by (simp add: cache_prediction_def sentry_init_def example_prediction_def
      get_cached_prediction_def cache_ttl_seconds_def)

subsection \<open>The predictor\<close>

text \<open>
  Claim C9. For a telemetry history of fewer than 10 points \<^verbatim>\<open>predict_signal_drop\<close> returns
  none, as a normal result and not as an error, whether or not a model is loaded and
  whatever the fit does.
\<close>

theorem short_window_no_prediction:
  "length telemetry_history < 10 \<Longrightarrow>
     predict_signal_drop polyfit polyfit_int model now telemetry_history did sid = Inr None"
  by (simp add: predict_signal_drop_def sequence_length_def)

theorem short_window_no_prediction_witness:
  "length (replicate 9 (example_point ''device_abc123'' ''session_xyz789'' 1)) < 10
   \<and> predict_signal_drop exact_polyfit exact_polyfit_int None 20
        (replicate 9 (example_point ''device_abc123'' ''session_xyz789'' 1))
        ''device_abc123'' ''session_xyz789'' = Inr None"
  using short_window_no_prediction
          [of "replicate 9 (example_point ''device_abc123'' ''session_xyz789'' 1)"
              exact_polyfit exact_polyfit_int None 20 "''device_abc123''" "''session_xyz789''"]
  by simp

subsection \<open>The heuristic predictor\<close>

text \<open>The two forms of the least-squares slope agree on every non-empty list.\<close>

lemma sum_list_upt: "sum_list (map f [0..<n]) = (\<Sum>i<n. f i)"
  by (simp add: interv_sum_list_conv_sum_set_nat atLeast0LessThan)

lemma map2_index: "map2 (*) (map real [0..<length ys]) ys = map (\<lambda>i. real i * ys ! i) [0..<length ys]"
  by (rule nth_equalityI) auto

lemma sum_list_nth: "sum_list ys = (\<Sum>i<length ys. ys ! i)"
  by (simp add: sum_list_sum_nth atLeast0LessThan)

lemma centred_products:
  fixes y :: "nat \<Rightarrow> real"
  assumes "0 < n"
  shows "real n * (\<Sum>i<n. (real i - (\<Sum>i<n. real i) / real n) * (y i - (\<Sum>i<n. y i) / real n))
       = real n * (\<Sum>i<n. real i * y i) - (\<Sum>i<n. real i) * (\<Sum>i<n. y i)"
proof -
  define a where "a = (\<Sum>i<n. real i) / real n"
  define b where "b = (\<Sum>i<n. y i) / real n"
  define Sx where "Sx = (\<Sum>i<n. real i)"
  define Sy where "Sy = (\<Sum>i<n. y i)"
  define Sxy where "Sxy = (\<Sum>i<n. real i * y i)"
  define C where "C = (\<Sum>i<n. (real i - a) * (y i - b))"
  have na: "Sx = real n * a" and nb: "Sy = real n * b"
    using assms by (simp_all add: a_def b_def Sx_def Sy_def)
  have e: "C = Sxy - b * Sx - a * Sy + real n * (a * b)"
    unfolding C_def Sxy_def Sx_def Sy_def
    by (simp add: algebra_simps sum_subtractf sum.distrib sum_distrib_left)
  have "real n * C = real n * Sxy - Sx * Sy"
    unfolding e na nb by (simp add: algebra_simps)
  then show ?thesis
    unfolding C_def Sxy_def Sx_def Sy_def a_def b_def .
qed

lemma slope_by_sums_least_squares:
  assumes "ys \<noteq> []"
  shows "slope_by_sums ys = least_squares_slope ys"
proof -
  define n where "n = length ys"
  have n: "0 < n" using assms by (simp add: n_def)
  define sx where "sx = (\<Sum>i<n. real i)"
  define sy where "sy = (\<Sum>i<n. ys ! i)"
  define sxy where "sxy = (\<Sum>i<n. real i * ys ! i)"
  define sxx where "sxx = (\<Sum>i<n. real i * real i)"
  define cxy where "cxy = (\<Sum>i<n. (real i - sx / real n) * (ys ! i - sy / real n))"
  define cxx where "cxx = (\<Sum>i<n. (real i - sx / real n) * (real i - sx / real n))"
  have s1: "sum_list (map2 (*) (map real [0..<length ys]) ys) = sxy"
    by (simp add: map2_index sum_list_upt sxy_def n_def)
  have s2: "sum_list (map real [0..<length ys]) = sx"
    by (simp add: sum_list_upt sx_def n_def)
  have s3: "sum_list ys = sy"
    by (simp add: sum_list_nth sy_def n_def)
  have s4: "sum_list (map ((\<lambda>x. x * x) \<circ> real) [0..<length ys]) = sxx"
    by (simp add: comp_def sum_list_upt sxx_def n_def)
  have p: "slope_by_sums ys =
      (if real n * sxx - sx * sx = 0 then 0
       else (real n * sxy - sx * sy) / (real n * sxx - sx * sx))"
    by (simp add: slope_by_sums_def Let_def s1 s2 s3 s4 n_def)
  have l: "least_squares_slope ys = cxy / cxx"
    by (simp add: least_squares_slope_def Let_def n_def [symmetric] cxy_def cxx_def sx_def sy_def)
  have xy: "real n * cxy = real n * sxy - sx * sy"
    unfolding cxy_def sx_def sy_def sxy_def by (rule centred_products [OF n])
  have xx: "real n * cxx = real n * sxx - sx * sx"
    unfolding cxx_def sx_def sxx_def by (rule centred_products [OF n])
  have "cxy / cxx = (real n * cxy) / (real n * cxx)" using n by simp
  also have "\<dots> = (real n * sxy - sx * sy) / (real n * sxx - sx * sx)" by (simp only: xy xx)
  finally show ?thesis by (simp add: p l)
qed

lemma sum_bools3:
  "sum_bools [a, b, c] = (if a then 1 else 0) + (if b then 1 else 0) + (if c then 1 else 0)"
  by (simp add: sum_bools_def)

lemma heuristic_unfold:
  assumes "window \<noteq> []"
    and p1: "polyfit (map signal_strength window) = Inr ss"
    and p2: "polyfit (map bandwidth_kbps window) = Inr bs"
    and p3: "polyfit_int (map latency_ms window) = Inr ls"
  shows "predict_with_heuristic polyfit polyfit_int now window did sid =
     (if 0.75 \<le> spec_heuristic_confidence ss bs ls (last window)
      then Inr (Some
        \<lparr>d_device_id = did, d_session_id = sid, d_timestamp = now,
         confidence = spec_heuristic_confidence ss bs ls (last window),
         predicted_time_seconds =
           (if ss < - 0.05
            then max 0.5 (min 5.0 \<bar>(0.2 - signal_strength (last window)) / ss\<bar>)
            else 3.0),
         predicted_bandwidth_kbps = max 0 (bandwidth_kbps (last window) + bs * 3),
         prediction_horizon_seconds = 5,
         model_version = ''heuristic_fallback'', predictor_type = ''heuristic'',
         features_used = [''signal_strength_trend'', ''bandwidth_trend'', ''latency_trend'']\<rparr>)
      else Inr None)"
proof -
  define cs where "cs = signal_strength (last window)"
  define cb where "cb = bandwidth_kbps (last window)"
  define cl where "cl = latency_ms (last window)"
  have l1: "last (map signal_strength window) = cs"
    and l2: "last (map bandwidth_kbps window) = cb"
    and l3: "last (map latency_ms window) = cl"
    using assms by (simp_all add: last_map cs_def cb_def cl_def)
  have spec: "spec_heuristic_confidence ss bs ls (last window) =
      max 0 (min 1 ((if 2 \<le> (if ss < - 0.05 then 1 else 0) + (if bs < - 100 then 1 else 0)
                          + (if ls > 50 then (1::nat) else 0) then 0.6 else 0)
                    + (if cs < 0.3 then 0.2 else 0) + (if cb < 500 then 0.15 else 0)
                    + (if cl > 500 then 0.15 else 0)))"
    by (simp add: spec_heuristic_confidence_def Let_def cs_def cb_def cl_def)
  define k :: nat where "k = sum_bools [ss < - 0.05, bs < - 100, ls > 50]"
  define base0 :: real where "base0 = (if k \<ge> 2 then 0.6 else 0.0)"
  define base1 where "base1 = (if cs < 0.3 then base0 + 0.2 else base0)"
  define base2 where "base2 = (if cb < 500 then base1 + 0.15 else base1)"
  define base3 where "base3 = (if cl > 500 then base2 + 0.15 else base2)"
  define c where "c = min 1.0 base3"
  define T where "T = (if ss < - 0.05 \<and> ss \<noteq> 0
                       then max 0.5 (min 5.0 \<bar>(0.2 - cs) / ss\<bar>) else 3.0)"
  define B where "B = max 0 (cb + bs * 3)"
  define P where "P = \<lparr>d_device_id = did, d_session_id = sid, d_timestamp = now,
         confidence = c, predicted_time_seconds = T, predicted_bandwidth_kbps = B,
         prediction_horizon_seconds = prediction_horizon,
         model_version = ''heuristic_fallback'', predictor_type = ''heuristic'',
         features_used = [''signal_strength_trend'', ''bandwidth_trend'', ''latency_trend'']\<rparr>"
  have ne: "(window = []) = False" using assms by simp
  have code: "predict_with_heuristic polyfit polyfit_int now window did sid =
      (if c \<ge> PREDICTION_THRESHOLD
       then (case make_prediction P of Inl e \<Rightarrow> Inl e | Inr p \<Rightarrow> Inr (Some p))
       else Inr None)"
    unfolding predict_with_heuristic_def Let_def p1 p2 p3 l1 l2 l3 sum.case ne if_False
      P_def B_def T_def c_def base3_def base2_def base1_def base0_def k_def ..
  have b0: "0 \<le> base0" "base0 \<le> 0.6" by (simp_all add: base0_def)
  then have b3: "0 \<le> base3" by (simp add: base3_def base2_def base1_def)
  then have c01: "0 \<le> c" "c \<le> 1" by (simp_all add: c_def)
  have "0 \<le> max (1 / 2) (min 5 x) \<and> max (1 / 2) (min 5 x) \<le> 10" for x :: real
    by (simp add: max_def min_def)
  then have T: "0 \<le> T" "T \<le> 10" by (simp_all add: T_def)
  have B: "0 \<le> B" by (simp add: B_def)
  have valid: "make_prediction P = Inr P"
    using c01 T B by (simp add: make_prediction_def P_def)
  have c_spec: "c = spec_heuristic_confidence ss bs ls (last window)"
    using b3 unfolding spec c_def base3_def base2_def base1_def base0_def k_def sum_bools3
    by (simp add: algebra_simps)
  have T_eq: "T = (if ss < - 0.05 then max 0.5 (min 5.0 \<bar>(0.2 - cs) / ss\<bar>) else 3.0)"
    by (simp add: T_def)
  show ?thesis
    unfolding code valid sum.case
    unfolding P_def T_eq B_def c_spec cs_def cb_def
    by (simp add: PREDICTION_THRESHOLD_def prediction_horizon_def)
qed

lemma upt10: "[0..<10] = [0,1,2,3,4,5,6,7,8,9::nat]"
  by (simp add: upt_rec)

lemma scenario_A_signal_slope:
  "least_squares_slope (map signal_strength (scenario_A_window lat)) = - 4 / 45"
proof -
  have "slope_by_sums (map signal_strength (scenario_A_window lat)) = - 4 / 45"
    by (simp add: scenario_A_window_def scenario_A_point_def slope_by_sums_def Let_def upt10)
  moreover have "map signal_strength (scenario_A_window lat) \<noteq> []"
    by (simp add: scenario_A_window_def)
  ultimately show ?thesis by (simp add: slope_by_sums_least_squares)
qed

lemma scenario_A_bandwidth_slope:
  "least_squares_slope (map bandwidth_kbps (scenario_A_window lat)) = - 2800 / 9"
proof -
  have "slope_by_sums (map bandwidth_kbps (scenario_A_window lat)) = - 2800 / 9"
    by (simp add: scenario_A_window_def scenario_A_point_def slope_by_sums_def Let_def upt10)
  moreover have "map bandwidth_kbps (scenario_A_window lat) \<noteq> []"
    by (simp add: scenario_A_window_def)
  ultimately show ?thesis by (simp add: slope_by_sums_least_squares)
qed

lemma scenario_A_last:
  "signal_strength (last (scenario_A_window lat)) = 0.1"
  "bandwidth_kbps (last (scenario_A_window lat)) = 200"
  "latency_ms (last (scenario_A_window lat)) = lat 9"
  by (simp_all add: scenario_A_window_def scenario_A_point_def upt10)

lemma scenario_A_confidence:
  assumes "\<bar>ss - least_squares_slope (map signal_strength (scenario_A_window lat))\<bar> \<le> 1 / 100"
    and "\<bar>bs - least_squares_slope (map bandwidth_kbps (scenario_A_window lat))\<bar> \<le> 1"
  shows "0.95 \<le> spec_heuristic_confidence ss bs ls (last (scenario_A_window lat))"
proof -
  from assms(1) have "\<bar>ss - (- 4 / 45)\<bar> \<le> 1 / 100"
    by (simp only: scenario_A_signal_slope)
  then have "ss \<le> - 4 / 45 + 1 / 100" by linarith
  then have s: "ss < - 0.05" by simp
  from assms(2) have "\<bar>bs - (- 2800 / 9)\<bar> \<le> 1"
    by (simp only: scenario_A_bandwidth_slope)
  then have "bs \<le> - 2800 / 9 + 1" by linarith
  then have b: "bs < - 100" by simp
  from s b show ?thesis
    by (simp add: spec_heuristic_confidence_def Let_def scenario_A_last)
qed

lemma predict_signal_drop_window:
  assumes "10 \<le> length history"
  shows "\<exists>older window. history = older @ window \<and> length window = 10
           \<and> predict_signal_drop polyfit polyfit_int None now history did sid
               = predict_with_heuristic polyfit polyfit_int now window did sid"
proof (intro exI conjI)
  show "history = take (length history - 10) history @ py_last_n 10 history"
    by (simp add: py_last_n_def)
  show "length (py_last_n 10 history) = 10"
    using assms by (simp add: length_py_last_n)
  show "predict_signal_drop polyfit polyfit_int None now history did sid
      = predict_with_heuristic polyfit polyfit_int now (py_last_n 10 history) did sid"
    using assms by (simp add: predict_signal_drop_def sequence_length_def Let_def)
qed

lemma scenario_A_fits:
  "exact_polyfit (map signal_strength (scenario_A_window lat)) = Inr (- 4 / 45)"
  "exact_polyfit (map bandwidth_kbps (scenario_A_window lat)) = Inr (- 2800 / 9)"
  "exact_polyfit_int (map latency_ms (scenario_A_window (\<lambda>i. 150))) = Inr 0"
  by (simp_all add: exact_polyfit_def exact_polyfit_int_def scenario_A_window_def
        scenario_A_point_def slope_by_sums_def Let_def upt10)

lemma steady_window_fits:
  "exact_polyfit (map signal_strength steady_window) = Inr 0"
  "exact_polyfit (map bandwidth_kbps steady_window) = Inr 0"
  "exact_polyfit_int (map latency_ms steady_window) = Inr 0"
  by (simp_all add: exact_polyfit_def exact_polyfit_int_def steady_window_def
        slope_by_sums_def Let_def upt10)

lemma steady_window_last:
  "signal_strength (last steady_window) = 0.75"
  "bandwidth_kbps (last steady_window) = 1200"
  "latency_ms (last steady_window) = 150"
  by (simp_all add: steady_window_def upt10)

lemma example_window_lengths:
  "length (scenario_A_window lat) = 10" "length steady_window = 10"
  by (simp_all add: scenario_A_window_def steady_window_def)

text \<open>
  Claim C5. On a non-empty window on which numpy's fit returns the slopes of signal,
  bandwidth and latency, the heuristic predictor emits a prediction exactly when the
  confidence of the specification from these slopes and the last point (flags at -0.05,
  -100 and 50; base 0.6 for two flags or more; additions 0.2, 0.15 and 0.15; clamped to
  [0,1]) is at least 0.75, with that confidence and predictor type heuristic, and none
  otherwise; \<^verbatim>\<open>predict_signal_drop\<close> without a model applies it to the last 10 points of
  the history, the older ones having no influence; and for the window of scenario A it
  emits a prediction with confidence at least 0.75 and predictor type heuristic, as soon
  as the fit returns the signal slope within 0.01 and the bandwidth slope within 1 of the
  least-squares slopes.
\<close>

theorem heuristic_prediction_rule:
  "((window \<noteq> [] \<and> polyfit (map signal_strength window) = Inr ss
       \<and> polyfit (map bandwidth_kbps window) = Inr bs
       \<and> polyfit_int (map latency_ms window) = Inr ls) \<longrightarrow>
      (0.75 \<le> spec_heuristic_confidence ss bs ls (last window) \<longrightarrow>
         (\<exists>p. predict_with_heuristic polyfit polyfit_int now window did sid = Inr (Some p)
              \<and> confidence p = spec_heuristic_confidence ss bs ls (last window)
              \<and> predictor_type p = ''heuristic''))
    \<and> (spec_heuristic_confidence ss bs ls (last window) < 0.75 \<longrightarrow>
         predict_with_heuristic polyfit polyfit_int now window did sid = Inr None))
   \<and> (10 \<le> length history \<longrightarrow>
        (\<exists>older recent. history = older @ recent \<and> length recent = 10
           \<and> predict_signal_drop polyfit polyfit_int None now history did sid
               = predict_with_heuristic polyfit polyfit_int now recent did sid))
   \<and> ((polyfit (map signal_strength (scenario_A_window lat)) = Inr ssA
        \<and> \<bar>ssA - least_squares_slope (map signal_strength (scenario_A_window lat))\<bar> \<le> 1 / 100
        \<and> polyfit (map bandwidth_kbps (scenario_A_window lat)) = Inr bsA
        \<and> \<bar>bsA - least_squares_slope (map bandwidth_kbps (scenario_A_window lat))\<bar> \<le> 1
        \<and> polyfit_int (map latency_ms (scenario_A_window lat)) = Inr lsA) \<longrightarrow>
        (\<exists>p. predict_signal_drop polyfit polyfit_int None now (scenario_A_window lat) did sid
                = Inr (Some p)
            \<and> 0.75 \<le> confidence p \<and> predictor_type p = ''heuristic''))"
proof (intro conjI impI)
  assume "10 \<le> length history"
  then show "\<exists>older recent. history = older @ recent \<and> length recent = 10
           \<and> predict_signal_drop polyfit polyfit_int None now history did sid
               = predict_with_heuristic polyfit polyfit_int now recent did sid"
    by (rule predict_signal_drop_window)
next
  assume a: "polyfit (map signal_strength (scenario_A_window lat)) = Inr ssA
        \<and> \<bar>ssA - least_squares_slope (map signal_strength (scenario_A_window lat))\<bar> \<le> 1 / 100
        \<and> polyfit (map bandwidth_kbps (scenario_A_window lat)) = Inr bsA
        \<and> \<bar>bsA - least_squares_slope (map bandwidth_kbps (scenario_A_window lat))\<bar> \<le> 1
        \<and> polyfit_int (map latency_ms (scenario_A_window lat)) = Inr lsA"
  have w: "scenario_A_window lat \<noteq> []" and n: "length (scenario_A_window lat) = 10"
    by (simp_all add: scenario_A_window_def)
  have "predict_signal_drop polyfit polyfit_int None now (scenario_A_window lat) did sid
      = predict_with_heuristic polyfit polyfit_int now (scenario_A_window lat) did sid"
    using n by (simp add: predict_signal_drop_def sequence_length_def Let_def py_last_n_def)
  moreover from a have "0.95 \<le> spec_heuristic_confidence ssA bsA lsA (last (scenario_A_window lat))"
    by (intro scenario_A_confidence) simp_all
  moreover from a have
    "predict_with_heuristic polyfit polyfit_int now (scenario_A_window lat) did sid =
     (if 0.75 \<le> spec_heuristic_confidence ssA bsA lsA (last (scenario_A_window lat))
      then Inr (Some
        \<lparr>d_device_id = did, d_session_id = sid, d_timestamp = now,
         confidence = spec_heuristic_confidence ssA bsA lsA (last (scenario_A_window lat)),
         predicted_time_seconds =
           (if ssA < - 0.05
            then max 0.5 (min 5.0 \<bar>(0.2 - signal_strength (last (scenario_A_window lat))) / ssA\<bar>)
            else 3.0),
         predicted_bandwidth_kbps =
           max 0 (bandwidth_kbps (last (scenario_A_window lat)) + bsA * 3),
         prediction_horizon_seconds = 5,
         model_version = ''heuristic_fallback'', predictor_type = ''heuristic'',
         features_used = [''signal_strength_trend'', ''bandwidth_trend'', ''latency_trend'']\<rparr>)
      else Inr None)"
    by (intro heuristic_unfold w) simp_all
  ultimately show "\<exists>p. predict_signal_drop polyfit polyfit_int None now (scenario_A_window lat) did sid
                = Inr (Some p)
            \<and> 0.75 \<le> confidence p \<and> predictor_type p = ''heuristic''"
    by simp
next
  assume a: "window \<noteq> [] \<and> polyfit (map signal_strength window) = Inr ss
       \<and> polyfit (map bandwidth_kbps window) = Inr bs
       \<and> polyfit_int (map latency_ms window) = Inr ls"
    and c: "0.75 \<le> spec_heuristic_confidence ss bs ls (last window)"
  from a have u: "predict_with_heuristic polyfit polyfit_int now window did sid =
     (if 0.75 \<le> spec_heuristic_confidence ss bs ls (last window)
      then Inr (Some
        \<lparr>d_device_id = did, d_session_id = sid, d_timestamp = now,
         confidence = spec_heuristic_confidence ss bs ls (last window),
         predicted_time_seconds =
           (if ss < - 0.05
            then max 0.5 (min 5.0 \<bar>(0.2 - signal_strength (last window)) / ss\<bar>)
            else 3.0),
         predicted_bandwidth_kbps = max 0 (bandwidth_kbps (last window) + bs * 3),
         prediction_horizon_seconds = 5,
         model_version = ''heuristic_fallback'', predictor_type = ''heuristic'',
         features_used = [''signal_strength_trend'', ''bandwidth_trend'', ''latency_trend'']\<rparr>)
      else Inr None)"
    by (intro heuristic_unfold) simp_all
  from c show "\<exists>p. predict_with_heuristic polyfit polyfit_int now window did sid = Inr (Some p)
              \<and> confidence p = spec_heuristic_confidence ss bs ls (last window)
              \<and> predictor_type p = ''heuristic''"
    by (simp add: u)
next
  assume a: "window \<noteq> [] \<and> polyfit (map signal_strength window) = Inr ss
       \<and> polyfit (map bandwidth_kbps window) = Inr bs
       \<and> polyfit_int (map latency_ms window) = Inr ls"
    and c: "spec_heuristic_confidence ss bs ls (last window) < 0.75"
  from a have "predict_with_heuristic polyfit polyfit_int now window did sid =
     (if 0.75 \<le> spec_heuristic_confidence ss bs ls (last window)
      then Inr (Some
        \<lparr>d_device_id = did, d_session_id = sid, d_timestamp = now,
         confidence = spec_heuristic_confidence ss bs ls (last window),
         predicted_time_seconds =
           (if ss < - 0.05
            then max 0.5 (min 5.0 \<bar>(0.2 - signal_strength (last window)) / ss\<bar>)
            else 3.0),
         predicted_bandwidth_kbps = max 0 (bandwidth_kbps (last window) + bs * 3),
         prediction_horizon_seconds = 5,
         model_version = ''heuristic_fallback'', predictor_type = ''heuristic'',
         features_used = [''signal_strength_trend'', ''bandwidth_trend'', ''latency_trend'']\<rparr>)
      else Inr None)"
    by (intro heuristic_unfold) simp_all
  with c show "predict_with_heuristic polyfit polyfit_int now window did sid = Inr None"
    by simp
qed

theorem heuristic_prediction_rule_witness:
  "scenario_A_window (\<lambda>i. 150) \<noteq> []
   \<and> exact_polyfit (map signal_strength (scenario_A_window (\<lambda>i. 150))) = Inr (- 4 / 45)
   \<and> exact_polyfit (map bandwidth_kbps (scenario_A_window (\<lambda>i. 150))) = Inr (- 2800 / 9)
   \<and> exact_polyfit_int (map latency_ms (scenario_A_window (\<lambda>i. 150))) = Inr 0
   \<and> spec_heuristic_confidence (- 4 / 45) (- 2800 / 9) 0 (last (scenario_A_window (\<lambda>i. 150)))
       = 0.95
   \<and> (\<exists>p. predict_with_heuristic exact_polyfit exact_polyfit_int 1709251210
             (scenario_A_window (\<lambda>i. 150)) ''device_abc123'' ''session_xyz789'' = Inr (Some p)
          \<and> confidence p = 0.95 \<and> predictor_type p = ''heuristic'')
   \<and> 10 \<le> length (steady_window @ scenario_A_window (\<lambda>i. 150))
   \<and> (\<exists>p. predict_signal_drop exact_polyfit exact_polyfit_int None 1709251210
             (steady_window @ scenario_A_window (\<lambda>i. 150))
             ''device_abc123'' ''session_xyz789'' = Inr (Some p)
          \<and> confidence p = 0.95 \<and> predictor_type p = ''heuristic'')
   \<and> (\<exists>p. predict_signal_drop exact_polyfit exact_polyfit_int None 1709251210
             (scenario_A_window (\<lambda>i. 150)) ''device_abc123'' ''session_xyz789'' = Inr (Some p)
          \<and> 0.75 \<le> confidence p \<and> predictor_type p = ''heuristic'')
   \<and> steady_window \<noteq> []
   \<and> exact_polyfit (map signal_strength steady_window) = Inr 0
   \<and> exact_polyfit (map bandwidth_kbps steady_window) = Inr 0
   \<and> exact_polyfit_int (map latency_ms steady_window) = Inr 0
   \<and> spec_heuristic_confidence 0 0 0 (last steady_window) = 0
   \<and> predict_with_heuristic exact_polyfit exact_polyfit_int 1709251210 steady_window
        ''device_abc123'' ''session_xyz789'' = Inr None
   \<and> predict_signal_drop exact_polyfit exact_polyfit_int None 1709251210
        (scenario_A_window (\<lambda>i. 150) @ steady_window)
        ''device_abc123'' ''session_xyz789'' = Inr None"
proof -
  let ?W = "scenario_A_window (\<lambda>i. 150)"
  let ?pwh = "\<lambda>w. predict_with_heuristic exact_polyfit exact_polyfit_int 1709251210 w
                 ''device_abc123'' ''session_xyz789''"
  let ?psd = "\<lambda>h. predict_signal_drop exact_polyfit exact_polyfit_int None 1709251210 h
                 ''device_abc123'' ''session_xyz789''"
  have w: "?W \<noteq> []" and s: "steady_window \<noteq> []"
    by (simp_all add: scenario_A_window_def steady_window_def)
  have cW: "spec_heuristic_confidence (- 4 / 45) (- 2800 / 9) 0 (last ?W) = 0.95"
    by (simp add: spec_heuristic_confidence_def Let_def scenario_A_last)
  have cS: "spec_heuristic_confidence 0 0 0 (last steady_window) = 0"
    by (simp add: spec_heuristic_confidence_def Let_def steady_window_last)
  note falling = heuristic_prediction_rule
      [where polyfit = exact_polyfit and polyfit_int = exact_polyfit_int
         and now = 1709251210 and did = "''device_abc123''" and sid = "''session_xyz789''"
         and window = ?W and ss = "- 4 / 45" and bs = "- 2800 / 9" and ls = 0
         and history = "steady_window @ ?W"
         and lat = "\<lambda>i. 150" and ssA = "- 4 / 45" and bsA = "- 2800 / 9" and lsA = 0]
  note steady = heuristic_prediction_rule
      [where polyfit = exact_polyfit and polyfit_int = exact_polyfit_int
         and now = 1709251210 and did = "''device_abc123''" and sid = "''session_xyz789''"
         and window = steady_window and ss = 0 and bs = 0 and ls = 0
         and history = "?W @ steady_window"
         and lat = "\<lambda>i. 150" and ssA = "- 4 / 45" and bsA = "- 2800 / 9" and lsA = 0]
  have a: "\<exists>p. ?pwh ?W = Inr (Some p)
          \<and> confidence p = 0.95 \<and> predictor_type p = ''heuristic''"
  proof -
    have "?W \<noteq> [] \<and> exact_polyfit (map signal_strength ?W) = Inr (- 4 / 45)
        \<and> exact_polyfit (map bandwidth_kbps ?W) = Inr (- 2800 / 9)
        \<and> exact_polyfit_int (map latency_ms ?W) = Inr 0"
      using w by (simp only: scenario_A_fits simp_thms)
    moreover have "0.75 \<le> spec_heuristic_confidence (- 4 / 45) (- 2800 / 9) 0 (last ?W)"
      by (simp only: cW) simp
    ultimately have "\<exists>p. ?pwh ?W = Inr (Some p)
          \<and> confidence p = spec_heuristic_confidence (- 4 / 45) (- 2800 / 9) 0 (last ?W)
          \<and> predictor_type p = ''heuristic''"
      using falling [THEN conjunct1] by blast
    then show ?thesis by (simp only: cW)
  qed
  have "10 \<le> length (steady_window @ ?W)"
    by (simp add: example_window_lengths)
  with falling [THEN conjunct2, THEN conjunct1] obtain older recent where
      d: "steady_window @ ?W = older @ recent" and n: "length recent = 10"
      and e: "?psd (steady_window @ ?W) = ?pwh recent"
    by blast
  from d n have "recent = ?W"
    by (simp add: append_eq_append_conv example_window_lengths)
  with e a have b: "\<exists>p. ?psd (steady_window @ ?W) = Inr (Some p)
          \<and> confidence p = 0.95 \<and> predictor_type p = ''heuristic''"
    by simp
  have c: "\<exists>p. ?psd ?W = Inr (Some p)
          \<and> 0.75 \<le> confidence p \<and> predictor_type p = ''heuristic''"
  proof -
    have "exact_polyfit (map signal_strength ?W) = Inr (- 4 / 45)
        \<and> \<bar>- 4 / 45 - least_squares_slope (map signal_strength ?W)\<bar> \<le> 1 / 100
        \<and> exact_polyfit (map bandwidth_kbps ?W) = Inr (- 2800 / 9)
        \<and> \<bar>- 2800 / 9 - least_squares_slope (map bandwidth_kbps ?W)\<bar> \<le> 1
        \<and> exact_polyfit_int (map latency_ms ?W) = Inr 0"
      by (simp add: scenario_A_fits scenario_A_signal_slope scenario_A_bandwidth_slope)
    with falling [THEN conjunct2, THEN conjunct2] show ?thesis by blast
  qed
  have f: "?pwh steady_window = Inr None"
  proof -
    have "steady_window \<noteq> [] \<and> exact_polyfit (map signal_strength steady_window) = Inr 0
        \<and> exact_polyfit (map bandwidth_kbps steady_window) = Inr 0
        \<and> exact_polyfit_int (map latency_ms steady_window) = Inr 0"
      using s by (simp only: steady_window_fits simp_thms)
    moreover have "spec_heuristic_confidence 0 0 0 (last steady_window) < 0.75"
      by (simp only: cS) simp
    ultimately show ?thesis
      using steady [THEN conjunct1] by blast
  qed
  have "10 \<le> length (?W @ steady_window)"
    by (simp add: example_window_lengths)
  with steady [THEN conjunct2, THEN conjunct1] obtain older' recent' where
      d': "?W @ steady_window = older' @ recent'" and n': "length recent' = 10"
      and e': "?psd (?W @ steady_window) = ?pwh recent'"
    by blast
  from d' n' have "recent' = steady_window"
    by (simp add: append_eq_append_conv example_window_lengths)
  with e' f have g: "?psd (?W @ steady_window) = Inr None"
    by simp
  show ?thesis
    using w s cW cS a b c f g
    by (simp add: scenario_A_fits steady_window_fits example_window_lengths)
qed

end
